theory Spec2Isabelle
  imports Complex_Main "HOL-Library.Word" "HOL-Library.Signed_Division"
begin

unbundle bit_operations_syntax

section \<open>Data model of the VLC callback bridge\<close>

text \<open>
  The development embeds the static callbacks of \<open>FVlcMediaCallbacks\<close>
  (VlcMediaCallbacks.cpp). Each callback becomes a function from the objects it reads
  to the objects it writes. The opaque context pointer is a
  \<open>FVlcMediaCallbacks option\<close>: \<open>None\<close> is the null pointer. Values the callbacks obtain
  from libvlc, from the engine or from the sample classes are arguments of the model.

  Integer widths: \<open>uint32\<close> and \<open>int32\<close> are \<open>32 word\<close> (signed reading with
  \<open>sint\<close>). The members \<open>AudioSampleSize\<close> and \<open>VideoBufferStride\<close> are declared in the
  class header; their width is the type parameter \<open>'s\<close> (the width of \<open>SIZE_T\<close>), so
  that every result holds for a 32-bit and for a 64-bit declaration alike.
  \<open>FTimespan\<close> is its tick count (100 ns units) as an integer.
\<close>

type_synonym uint32 = "32 word"
type_synonym int32 = "32 word"
type_synonym uint8 = "8 word"
type_synonym int64 = "64 word"
type_synonym FTimespan = int

datatype ptr = Nullptr | Addr nat

datatype fault = AssertionFailed | DivideByZero

datatype EMediaAudioSampleFormat = Undefined_Audio | Double | Float | Int8 | Int16 | Int32

datatype EMediaTextureSampleFormat =
  Undefined_Texture | CharAYUV | CharBGRA | CharBMP | CharNV12 | CharNV21
  | CharUYVY | CharYUY2 | CharYVYU | FloatRGB | FloatRGBA

record FIntPoint =
  X :: int32
  Y :: int32

definition ZeroValue :: FIntPoint where
  "ZeroValue = \<lparr>X = 0, Y = 0\<rparr>"

text \<open>\<open>FIntPoint::GetMin\<close>: the smaller component, compared as signed integers.\<close>

definition GetMin :: "FIntPoint \<Rightarrow> int32" where
  "GetMin p = (if sint (X p) \<le> sint (Y p) then X p else Y p)"

text \<open>
  Modelled from the spec: the audio sample class (VlcMediaAudioSample.h) is not among
  the sources. Its \<open>Initialize\<close> receives the raw buffer, its size, the sample count,
  the channel count, the format, the rate, the time stamp and the duration; the record
  below holds exactly these arguments. Whether \<open>Initialize\<close> succeeds is an argument
  of the callback.
\<close>

record (overloaded) 's FVlcMediaAudioSample =
  AS_Buffer :: ptr
  AS_Size :: "'s word"
  AS_Frames :: uint32
  AS_Channels :: uint32
  AS_SampleFormat :: EMediaAudioSampleFormat
  AS_SampleRate :: uint32
  AS_Time :: FTimespan
  AS_Duration :: FTimespan

text \<open>
  Modelled from the spec: the texture sample class (VlcMediaTextureSample.h) is not
  among the sources. A sample owns one pixel buffer and is tagged with buffer and output
  dimensions, format, stride, duration and presentation time. \<open>TS_Buffer\<close> is the address
  \<open>GetMutableBuffer\<close> returns; \<open>TS_Data\<close> is the content of the memory at that address,
  indexed by byte offset.
\<close>

record (overloaded) 's FVlcMediaTextureSample =
  TS_Buffer :: ptr
  TS_Data :: "nat \<Rightarrow> uint8"
  TS_Dim :: FIntPoint
  TS_OutputDim :: FIntPoint
  TS_SampleFormat :: EMediaTextureSampleFormat
  TS_Stride :: "'s word"
  TS_Duration :: FTimespan
  TS_Time :: FTimespan

text \<open>\<open>FMediaSamples\<close>: the two output queues, oldest entry first.\<close>

record (overloaded) 's FMediaSamples =
  AudioSampleQueue :: "'s FVlcMediaAudioSample list"
  VideoSampleQueue :: "'s FVlcMediaTextureSample list"

text \<open>
  One texture update handed to the render thread by \<open>UpdateTextureRegions\<close>
  (a single region, mip 0).
\<close>

record FUpdateTextureRegionsData =
  SrcPitch :: uint32
  SrcBpp :: uint32
  SrcData :: ptr

text \<open>
  The bridge object. \<open>VideoTexture2D\<close> is \<open>None\<close> for the null pointer and otherwise
  tells whether the texture has a resource. \<open>RenderCommands\<close> collects the updates
  enqueued for the render thread. The player pointer and the two pools are
  represented by the values the callbacks obtain through them.
\<close>

record (overloaded) 's FVlcMediaCallbacks =
  AudioChannels :: uint32
  AudioSampleFormat :: EMediaAudioSampleFormat
  AudioSampleRate :: uint32
  AudioSampleSize :: "'s word"
  CurrentTime :: FTimespan
  Samples :: "'s FMediaSamples"
  VideoBufferDim :: FIntPoint
  VideoBufferStride :: "'s word"
  VideoFrameDuration :: FTimespan
  VideoOutputDim :: FIntPoint
  VideoPreviousTime :: FTimespan
  VideoSampleFormat :: EMediaTextureSampleFormat
  VideoTexture2D :: "bool option"
  RenderCommands :: "FUpdateTextureRegionsData list"

text \<open>The constructor's member initialisers. \<open>FTimespan::MinValue\<close> is the least int64.\<close>

definition FVlcMediaCallbacks_ctor :: "'s::len FVlcMediaCallbacks" where
  "FVlcMediaCallbacks_ctor =
    \<lparr>AudioChannels = 0,
     AudioSampleFormat = Int16,
     AudioSampleRate = 0,
     AudioSampleSize = 0,
     CurrentTime = 0,
     Samples = \<lparr>AudioSampleQueue = [], VideoSampleQueue = []\<rparr>,
     VideoBufferDim = ZeroValue,
     VideoBufferStride = 0,
     VideoFrameDuration = 0,
     VideoOutputDim = ZeroValue,
     VideoPreviousTime = - (2 ^ 63),
     VideoSampleFormat = CharAYUV,
     VideoTexture2D = None,
     RenderCommands = []\<rparr>"

section \<open>Audio format negotiation\<close>

text \<open>
  \<open>FMemory::Memcmp (Format, tag, 4) == 0\<close> compares the first four bytes of the tag
  buffer; \<open>FMemory::Memcpy (Format, tag, 4)\<close> overwrites them.
\<close>

definition Memcmp4 :: "string \<Rightarrow> string \<Rightarrow> bool" where
  "Memcmp4 buf tag = (take 4 buf = take 4 tag)"

definition Memcpy4 :: "string \<Rightarrow> string \<Rightarrow> string" where
  "Memcpy4 buf tag = take 4 tag @ drop 4 buf"

record (overloaded) 's audio_setup_result =
  asr_return :: int
  asr_Callbacks :: "'s FVlcMediaCallbacks option"
  asr_Format :: string
  asr_Rate :: uint32
  asr_Channels :: uint32

definition StaticAudioSetupCallback ::
  "'s::len FVlcMediaCallbacks option \<Rightarrow> string \<Rightarrow> uint32 \<Rightarrow> uint32 \<Rightarrow> 's audio_setup_result"
where
  "StaticAudioSetupCallback Opaque Format Rate Channels =
    (case Opaque of
       None \<Rightarrow>
         \<lparr>asr_return = - 1, asr_Callbacks = None, asr_Format = Format,
          asr_Rate = Rate, asr_Channels = Channels\<rparr>
     | Some Callbacks \<Rightarrow>
         let Channels' = (if 8 < Channels then 8 else Channels);
             (Format', fmt, sz) =
               (if Memcmp4 Format ''S8  '' then (Format, Int8, 1)
                else if Memcmp4 Format ''S16N'' then (Format, Int16, 2)
                else if Memcmp4 Format ''S32N'' then (Format, Int32, 4)
                else if Memcmp4 Format ''FL32'' then (Format, Float, 4)
                else if Memcmp4 Format ''FL64'' then (Format, Double, 8)
                else if Memcmp4 Format ''U8  '' then (Memcpy4 Format ''S8  '', Int8, 1)
                else (Memcpy4 Format ''S16N'', Int16, 2))
         in \<lparr>asr_return = 0,
             asr_Callbacks = Some (Callbacks
               \<lparr>AudioSampleFormat := fmt,
                AudioSampleSize := sz,
                AudioChannels := Channels',
                AudioSampleRate := Rate\<rparr>),
             asr_Format = Format',
             asr_Rate = Rate,
             asr_Channels = Channels'\<rparr>)"

section \<open>Audio delivery\<close>

text \<open>
  \<open>FTimespan::FromMicroseconds\<close>: ten ticks per microsecond.
\<close>

definition FromMicroseconds :: "int \<Rightarrow> FTimespan" where
  "FromMicroseconds us = us * 10"

text \<open>
  \<open>StaticAudioPlayCallback\<close>. \<open>Delay\<close> is \<open>FVlc::Delay\<close> (libvlc's conversion of a
  decoder time stamp into a delay in microseconds). \<open>Initialize\<close> tells whether the
  sample's \<open>Initialize\<close> succeeds on the arguments it is given. \<open>AcquireShared\<close> always
  yields a sample. \<open>Count * 1000000\<close> is a product of \<open>uint32\<close> values and wraps at
  \<open>2 ^ 32\<close>; the division is the unsigned integer division, which traps on a zero
  sample rate.
\<close>

definition StaticAudioPlayCallback ::
  "(int64 \<Rightarrow> int64) \<Rightarrow> ('s FVlcMediaAudioSample \<Rightarrow> bool) \<Rightarrow>
   's::len FVlcMediaCallbacks option \<Rightarrow> ptr \<Rightarrow> uint32 \<Rightarrow> int64 \<Rightarrow>
   fault + 's FVlcMediaCallbacks option"
where
  "StaticAudioPlayCallback Delay Initialize Opaque SamplesPtr Count Timestamp =
    (case Opaque of
       None \<Rightarrow> Inr None
     | Some Callbacks \<Rightarrow>
         if AudioSampleRate Callbacks = 0 then Inl DivideByZero
         else
           let DelayT = FromMicroseconds (sint (Delay Timestamp));
               Duration = FromMicroseconds (uint ((Count * 1000000) div AudioSampleRate Callbacks));
               SamplesSize = ucast Count * AudioSampleSize Callbacks * ucast (AudioChannels Callbacks);
               AudioSample =
                 \<lparr>AS_Buffer = SamplesPtr,
                  AS_Size = SamplesSize,
                  AS_Frames = Count,
                  AS_Channels = AudioChannels Callbacks,
                  AS_SampleFormat = AudioSampleFormat Callbacks,
                  AS_SampleRate = AudioSampleRate Callbacks,
                  AS_Time = CurrentTime Callbacks + DelayT,
                  AS_Duration = Duration\<rparr>
           in if Initialize AudioSample
              then Inr (Some (Callbacks
                     \<lparr>Samples := (Samples Callbacks)
                        \<lparr>AudioSampleQueue := AudioSampleQueue (Samples Callbacks) @ [AudioSample]\<rparr>\<rparr>))
              else Inr (Some Callbacks))"

section \<open>Video format negotiation\<close>

text \<open>
  What the callbacks obtain from libvlc and the engine during a negotiation:
  \<^item> \<open>VideoGetSize\<close>: the return code of \<open>FVlc::VideoGetSize\<close> and the two values found
    in its out-parameters afterwards (the callback passes the addresses of
    \<open>VideoOutputDim.X\<close> and \<open>VideoOutputDim.Y\<close>);
  \<^item> \<open>PlaneCount\<close>: the plane count of the description
    \<open>FVlc::FourccGetChromaDescription\<close> returns for a chroma tag (the callback
    dereferences the description without a null test);
  \<^item> \<open>MediaPlayerGetFps\<close>: the frame rate the player reports;
  \<^item> \<open>FromSecondsRecip\<close>: the engine's value of
    \<open>FTimespan::FromSeconds (1.0 / fps)\<close>, a floating point computation that is left
    uninterpreted. The callback evaluates it without any test of the rate. At a rate
    of zero the quotient is infinite and has no tick count, so the value of this field
    at such a rate stands for no value of the engine.
\<close>

record FVlc =
  VideoGetSize :: "int \<times> uint32 \<times> uint32"
  PlaneCount :: "string \<Rightarrow> uint32"
  MediaPlayerGetFps :: rat
  FromSecondsRecip :: "rat \<Rightarrow> FTimespan"

text \<open>
  \<open>FCStringAnsi::Stricmp (a, b) == 0\<close>: equality of two C strings up to the case of
  ASCII letters.
\<close>

definition ToLower :: "char \<Rightarrow> char" where
  "ToLower c =
    (case map_of (zip ''ABCDEFGHIJKLMNOPQRSTUVWXYZ'' ''abcdefghijklmnopqrstuvwxyz'') c of
       None \<Rightarrow> c
     | Some l \<Rightarrow> l)"

definition Stricmp :: "string \<Rightarrow> string \<Rightarrow> bool" where
  "Stricmp a b = (map ToLower a = map ToLower b)"

text \<open>
  The chroma tags the callback tests, in the order of its tests, and the predicate
  \<open>some test succeeds\<close>; both serve to state results about tags outside the table.
\<close>

definition ChromaTable :: "string list" where
  "ChromaTable =
    [''AYUV'', ''RV32'', ''UYVY'', ''Y422'', ''UYNV'', ''HDYC'', ''YUY2'', ''V422'', ''YUYV'',
     ''YVYU'']"

definition KnownChroma :: "string \<Rightarrow> bool" where
  "KnownChroma Chroma = list_ex (Stricmp Chroma) ChromaTable"

text \<open>The engine's \<open>Align\<close>: round up to a multiple of a power of two.\<close>

definition Align :: "int32 \<Rightarrow> int32 \<Rightarrow> int32" where
  "Align Val Alignment = (Val + Alignment - 1) AND NOT (Alignment - 1)"

text \<open>Division of \<open>int32\<close> values: the quotient is truncated towards zero.\<close>

definition int32_div :: "int32 \<Rightarrow> int32 \<Rightarrow> int32" where
  "int32_div a b = word_of_int (sint a sdiv sint b)"

record (overloaded) 's video_setup_result =
  vsr_return :: uint32
  vsr_Callbacks :: "'s FVlcMediaCallbacks option"
  vsr_Chroma :: string
  vsr_Width :: uint32
  vsr_Height :: uint32
  vsr_Pitches :: "nat \<Rightarrow> uint32"
  vsr_Lines :: "nat \<Rightarrow> uint32"

text \<open>An early \<open>return 0\<close>: nothing but the bridge object may have changed.\<close>

definition video_setup_reject ::
  "'s::len FVlcMediaCallbacks option \<Rightarrow> string \<Rightarrow> uint32 \<Rightarrow> uint32 \<Rightarrow>
   (nat \<Rightarrow> uint32) \<Rightarrow> (nat \<Rightarrow> uint32) \<Rightarrow> 's video_setup_result"
where
  "video_setup_reject cb Chroma Width Height Pitches Lines =
    \<lparr>vsr_return = 0, vsr_Callbacks = cb, vsr_Chroma = Chroma, vsr_Width = Width,
     vsr_Height = Height, vsr_Pitches = Pitches, vsr_Lines = Lines\<rparr>"

text \<open>
  The tail of the callback, after the chroma match: frame duration, \<open>Lines[0]\<close>,
  \<open>Pitches[0]\<close>, \<open>return 1\<close>.
\<close>

definition video_setup_accept ::
  "FVlc \<Rightarrow> 's::len FVlcMediaCallbacks \<Rightarrow> string \<Rightarrow> uint32 \<Rightarrow> uint32 \<Rightarrow>
   (nat \<Rightarrow> uint32) \<Rightarrow> (nat \<Rightarrow> uint32) \<Rightarrow> 's video_setup_result"
where
  "video_setup_accept vlc cb Chroma Width Height Pitches Lines =
    \<lparr>vsr_return = 1,
     vsr_Callbacks =
       Some (cb\<lparr>VideoFrameDuration := FromSecondsRecip vlc (MediaPlayerGetFps vlc)\<rparr>),
     vsr_Chroma = Chroma,
     vsr_Width = Width,
     vsr_Height = Height,
     vsr_Pitches = Pitches(0 := ucast (VideoBufferStride cb)),
     vsr_Lines = Lines(0 := Y (VideoBufferDim cb))\<rparr>"

text \<open>
  The chroma match of the callback (from \<open>// determine decoder & sample formats\<close>
  on), entered with \<open>VideoBufferDim\<close> already set to the proposed dimensions.
\<close>

definition video_setup_match_chroma ::
  "FVlc \<Rightarrow> 's::len FVlcMediaCallbacks \<Rightarrow> string \<Rightarrow> uint32 \<Rightarrow> uint32 \<Rightarrow>
   (nat \<Rightarrow> uint32) \<Rightarrow> (nat \<Rightarrow> uint32) \<Rightarrow> 's video_setup_result"
where
  "video_setup_match_chroma vlc cb2 Chroma Width Height Pitches Lines =
    (if Stricmp Chroma ''AYUV'' then
       video_setup_accept vlc
         (cb2\<lparr>VideoSampleFormat := CharAYUV, VideoBufferStride := ucast (Width * 4)\<rparr>)
         Chroma Width Height Pitches Lines
     else if Stricmp Chroma ''RV32'' then
       video_setup_accept vlc
         (cb2\<lparr>VideoSampleFormat := CharBGRA, VideoBufferStride := ucast (Width * 4)\<rparr>)
         Chroma Width Height Pitches Lines
     else if Stricmp Chroma ''UYVY'' \<or> Stricmp Chroma ''Y422'' \<or>
             Stricmp Chroma ''UYNV'' \<or> Stricmp Chroma ''HDYC'' then
       video_setup_accept vlc
         (cb2\<lparr>VideoSampleFormat := CharUYVY, VideoBufferStride := ucast (Width * 2)\<rparr>)
         Chroma Width Height Pitches Lines
     else if Stricmp Chroma ''YUY2'' \<or> Stricmp Chroma ''V422'' \<or>
             Stricmp Chroma ''YUYV'' then
       video_setup_accept vlc
         (cb2\<lparr>VideoSampleFormat := CharYUY2, VideoBufferStride := ucast (Width * 2)\<rparr>)
         Chroma Width Height Pitches Lines
     else if Stricmp Chroma ''YVYU'' then
       video_setup_accept vlc
         (cb2\<lparr>VideoSampleFormat := CharYVYU, VideoBufferStride := ucast (Width * 2)\<rparr>)
         Chroma Width Height Pitches Lines
     else if PlaneCount vlc Chroma = 0 then
       video_setup_reject (Some cb2) Chroma Width Height Pitches Lines
     else if 1 < PlaneCount vlc Chroma then
       let dim = \<lparr>X = int32_div (Align (X (VideoOutputDim cb2)) 16) 2,
                  Y = Align (Y (VideoOutputDim cb2)) 16\<rparr>
       in video_setup_accept vlc
            (cb2\<lparr>VideoBufferDim := dim, VideoSampleFormat := CharYUY2,
                 VideoBufferStride := scast (X dim * 4)\<rparr>)
            (Memcpy4 Chroma ''YUY2'') Width (Y dim) Pitches Lines
     else
       let dim = VideoOutputDim cb2
       in video_setup_accept vlc
            (cb2\<lparr>VideoBufferDim := dim, VideoSampleFormat := CharBGRA,
                 VideoBufferStride := scast (X dim * 4)\<rparr>)
            (Memcpy4 Chroma ''RV32'') Width Height Pitches Lines)"

text \<open>
  \<open>StaticVideoSetupCallback\<close>: the null test, the size query, the test of the queried
  dimensions, then the chroma match.
\<close>

definition StaticVideoSetupCallback ::
  "FVlc \<Rightarrow> 's::len FVlcMediaCallbacks option \<Rightarrow> string \<Rightarrow> uint32 \<Rightarrow> uint32 \<Rightarrow>
   (nat \<Rightarrow> uint32) \<Rightarrow> (nat \<Rightarrow> uint32) \<Rightarrow> 's video_setup_result"
where
  "StaticVideoSetupCallback vlc Opaque Chroma Width Height Pitches Lines =
    (case Opaque of
       None \<Rightarrow> video_setup_reject None Chroma Width Height Pitches Lines
     | Some Callbacks \<Rightarrow>
        (case VideoGetSize vlc of (rc, px, py) \<Rightarrow>
          let cb1 = Callbacks\<lparr>VideoOutputDim := \<lparr>X = px, Y = py\<rparr>\<rparr> in
          if rc \<noteq> 0 then
            video_setup_reject
              (Some (cb1\<lparr>VideoBufferDim := ZeroValue, VideoOutputDim := ZeroValue,
                         VideoBufferStride := 0\<rparr>))
              Chroma Width Height Pitches Lines
          else if sint (GetMin (VideoOutputDim cb1)) \<le> 0 then
            video_setup_reject (Some cb1) Chroma Width Height Pitches Lines
          else
            video_setup_match_chroma vlc (cb1\<lparr>VideoBufferDim := \<lparr>X = Width, Y = Height\<rparr>\<rparr>)
              Chroma Width Height Pitches Lines))"

section \<open>The video lock, unlock and display callbacks\<close>

text \<open>
  The engine's allocator. \<open>FMemory::Malloc\<close> hands out a new block and never returns
  the null pointer (it stops the process when memory is exhausted); \<open>FMemory::Free\<close>
  drops the block at an address. A block is recorded as address, size in bytes and
  alignment.
\<close>

record FMemory =
  NextAddr :: nat
  Blocks :: "(nat \<times> nat \<times> nat) list"

definition Malloc :: "nat \<Rightarrow> nat \<Rightarrow> FMemory \<Rightarrow> ptr \<times> FMemory" where
  "Malloc Count Alignment m =
    (Addr (NextAddr m),
     m\<lparr>NextAddr := Suc (NextAddr m), Blocks := (NextAddr m, Count, Alignment) # Blocks m\<rparr>)"

definition Free :: "ptr \<Rightarrow> FMemory \<Rightarrow> FMemory" where
  "Free p m =
    (case p of
       Nullptr \<Rightarrow> m
     | Addr a \<Rightarrow> m\<lparr>Blocks := filter (\<lambda>b. fst b \<noteq> a) (Blocks m)\<rparr>)"

text \<open>The size of the live block a pointer refers to, if there is one.\<close>

definition BlockSize :: "FMemory \<Rightarrow> ptr \<Rightarrow> nat option" where
  "BlockSize m p =
    (case p of
       Nullptr \<Rightarrow> None
     | Addr a \<Rightarrow> map_option fst (map_of (Blocks m) a))"

record (overloaded) 's video_lock_result =
  vlr_return :: "'s FVlcMediaTextureSample option"
  vlr_Callbacks :: "'s FVlcMediaCallbacks"
  vlr_Planes :: "nat \<Rightarrow> ptr"
  vlr_Memory :: FMemory

text \<open>
  The three places where the lock callback hands the decoder a throwaway buffer of
  \<open>VideoBufferStride * VideoBufferDim.Y\<close> bytes, aligned to 32, and returns the null
  handle. \<open>Planes\<close> is the plane table after \<open>Memzero\<close>.
\<close>

definition video_lock_scratch ::
  "'s::len FVlcMediaCallbacks \<Rightarrow> (nat \<Rightarrow> ptr) \<Rightarrow> FMemory \<Rightarrow> 's video_lock_result"
where
  "video_lock_scratch Callbacks Planes m =
    (case Malloc (unat (VideoBufferStride Callbacks * scast (Y (VideoBufferDim Callbacks)))) 32 m of
       (p, m') \<Rightarrow>
         \<lparr>vlr_return = None, vlr_Callbacks = Callbacks, vlr_Planes = Planes(0 := p),
          vlr_Memory = m'\<rparr>)"

text \<open>
  \<open>StaticVideoLockCallback\<close>. \<open>MaxPlanes\<close> is \<open>FVlc::MaxPlanes\<close>; \<open>Acquire\<close> is what the
  video sample pool returns (\<open>None\<close> for the null pointer); \<open>Initialize\<close> is the texture
  sample's \<open>Initialize\<close>, giving its return value and the sample afterwards. The
  callback starts with \<open>check (Callbacks != nullptr)\<close>: a null context stops the
  process.
\<close>

definition StaticVideoLockCallback ::
  "nat \<Rightarrow> 's FVlcMediaTextureSample option \<Rightarrow>
   ('s FVlcMediaTextureSample \<Rightarrow> FIntPoint \<Rightarrow> FIntPoint \<Rightarrow> EMediaTextureSampleFormat \<Rightarrow>
      's word \<Rightarrow> FTimespan \<Rightarrow> bool \<times> 's FVlcMediaTextureSample) \<Rightarrow>
   's::len FVlcMediaCallbacks option \<Rightarrow> (nat \<Rightarrow> ptr) \<Rightarrow> FMemory \<Rightarrow>
   fault + 's video_lock_result"
where
  "StaticVideoLockCallback MaxPlanes Acquire Initialize Opaque Planes m =
    (case Opaque of
       None \<Rightarrow> Inl AssertionFailed
     | Some Callbacks \<Rightarrow>
         let Planes0 = (\<lambda>i. if i < MaxPlanes then Nullptr else Planes i) in
         if VideoPreviousTime Callbacks = CurrentTime Callbacks then
           Inr (video_lock_scratch Callbacks Planes0 m)
         else
           (case Acquire of
              None \<Rightarrow> Inr (video_lock_scratch Callbacks Planes0 m)
            | Some VideoSample \<Rightarrow>
               (case Initialize VideoSample (VideoBufferDim Callbacks) (VideoOutputDim Callbacks)
                       (VideoSampleFormat Callbacks) (VideoBufferStride Callbacks)
                       (VideoFrameDuration Callbacks) of
                  (ok, VideoSample') \<Rightarrow>
                    if \<not> ok then Inr (video_lock_scratch Callbacks Planes0 m)
                    else
                      Inr \<lparr>vlr_return = Some VideoSample',
                           vlr_Callbacks =
                             Callbacks\<lparr>VideoPreviousTime := CurrentTime Callbacks\<rparr>,
                           vlr_Planes = Planes0(0 := TS_Buffer VideoSample'),
                           vlr_Memory = m\<rparr>)))"

text \<open>
  \<open>StaticVideoUnlockCallback\<close>: the context is only named in a log line; a throwaway
  buffer is freed when the handle is null.
\<close>

definition StaticVideoUnlockCallback ::
  "'s::len FVlcMediaCallbacks option \<Rightarrow> 's FVlcMediaTextureSample option \<Rightarrow>
   (nat \<Rightarrow> ptr) option \<Rightarrow> FMemory \<Rightarrow> FMemory"
where
  "StaticVideoUnlockCallback Opaque Picture Planes m =
    (case Planes of
       None \<Rightarrow> m
     | Some P \<Rightarrow> if Picture = None \<and> P 0 \<noteq> Nullptr then Free (P 0) m else m)"

text \<open>
  The body of the display callback's pixel loop at byte offset \<open>i\<close>. The pixel is read
  as one \<open>uint32\<close> (least significant byte first, as on every platform of the engine)
  before any byte of it is written.
\<close>

definition mangle_pixel :: "(nat \<Rightarrow> uint8) \<Rightarrow> nat \<Rightarrow> (nat \<Rightarrow> uint8)" where
  "mangle_pixel buffer i =
    (let pixel :: uint32 =
           ucast (buffer i) OR push_bit 8 (ucast (buffer (i + 1)))
           OR push_bit 16 (ucast (buffer (i + 2))) OR push_bit 24 (ucast (buffer (i + 3)));
         buffer1 = buffer(i + 3 := buffer i);
         buffer2 = buffer1(i := ucast (drop_bit 7 (pixel AND 0x7C00)));
         buffer3 = buffer2(i + 1 := 0)
     in buffer3(i + 2 := 0))"

text \<open>\<open>for (size_t i = 0; i < n; i += SrcBpp)\<close> with \<open>SrcBpp = 4\<close>, started at \<open>i\<close>.\<close>

function mangle_loop :: "nat \<Rightarrow> nat \<Rightarrow> (nat \<Rightarrow> uint8) \<Rightarrow> (nat \<Rightarrow> uint8)" where
  "mangle_loop i n buffer =
    (if i < n then mangle_loop (i + 4) n (mangle_pixel buffer i) else buffer)"
  by pat_completeness auto
termination
  by (relation "measure (\<lambda>(i, n, buffer). n - i)") auto

declare mangle_loop.simps [simp del]


text \<open>
  \<open>UpdateTextureRegions\<close> with one region of mip 0: a render command is enqueued when
  the texture has a resource.
\<close>

definition UpdateTextureRegions ::
  "bool \<Rightarrow> uint32 \<Rightarrow> uint32 \<Rightarrow> ptr \<Rightarrow> 's::len FVlcMediaCallbacks \<Rightarrow> 's FVlcMediaCallbacks"
where
  "UpdateTextureRegions Resource pitch bpp data cb =
    (if Resource
     then cb\<lparr>RenderCommands :=
               RenderCommands cb @ [\<lparr>SrcPitch = pitch, SrcBpp = bpp, SrcData = data\<rparr>]\<rparr>
     else cb)"

text \<open>
  \<open>StaticVideoDisplayCallback\<close>. \<open>Picture\<close> is the sample the handle points to. The
  loop bound \<open>SrcBpp * dimensions.X * dimensions.Y\<close> is a \<open>uint32\<close> product.
\<close>

definition StaticVideoDisplayCallback ::
  "'s::len FVlcMediaCallbacks option \<Rightarrow> 's FVlcMediaTextureSample option \<Rightarrow>
   's FVlcMediaCallbacks option"
where
  "StaticVideoDisplayCallback Opaque Picture =
    (case (Opaque, Picture) of
       (Some Callbacks, Some VideoSample) \<Rightarrow>
         let s1 = VideoSample\<lparr>TS_Time := CurrentTime Callbacks\<rparr>;
             dimensions = TS_Dim s1;
             (s2, cb1) =
               (if TS_SampleFormat s1 = CharBGRA then
                  let s2 = s1\<lparr>TS_Data :=
                             mangle_loop 0 (unat (4 * X dimensions * Y dimensions)) (TS_Data s1)\<rparr>
                  in (s2,
                      case VideoTexture2D Callbacks of
                        None \<Rightarrow> Callbacks
                      | Some Resource \<Rightarrow>
                          UpdateTextureRegions Resource (4 * X dimensions) 4 (TS_Buffer s2)
                            Callbacks)
                else (s1, Callbacks))
         in Some (cb1\<lparr>Samples := (Samples cb1)
                    \<lparr>VideoSampleQueue := VideoSampleQueue (Samples cb1) @ [s2]\<rparr>\<rparr>)
     | _ \<Rightarrow> Opaque)"

text \<open>
  The remaining callbacks write a log line (audio cleanup, drain, flush, pause, resume)
  or do nothing (video cleanup); they never read through the context pointer.
\<close>

definition StaticAudioCleanupCallback ::
  "'s::len FVlcMediaCallbacks option \<Rightarrow> 's FVlcMediaCallbacks option" where
  "StaticAudioCleanupCallback Opaque = Opaque"

definition StaticAudioDrainCallback ::
  "'s::len FVlcMediaCallbacks option \<Rightarrow> 's FVlcMediaCallbacks option" where
  "StaticAudioDrainCallback Opaque = Opaque"

definition StaticAudioFlushCallback ::
  "'s::len FVlcMediaCallbacks option \<Rightarrow> int64 \<Rightarrow> 's FVlcMediaCallbacks option" where
  "StaticAudioFlushCallback Opaque Timestamp = Opaque"

definition StaticAudioPauseCallback ::
  "'s::len FVlcMediaCallbacks option \<Rightarrow> int64 \<Rightarrow> 's FVlcMediaCallbacks option" where
  "StaticAudioPauseCallback Opaque Timestamp = Opaque"

definition StaticAudioResumeCallback ::
  "'s::len FVlcMediaCallbacks option \<Rightarrow> int64 \<Rightarrow> 's FVlcMediaCallbacks option" where
  "StaticAudioResumeCallback Opaque Timestamp = Opaque"

definition StaticVideoCleanupCallback ::
  "'s::len FVlcMediaCallbacks option \<Rightarrow> 's FVlcMediaCallbacks option" where
  "StaticVideoCleanupCallback Opaque = Opaque"

section \<open>Concrete inputs\<close>

text \<open>
  A player whose size query answers \<open>q\<close>, whose frame rate is \<open>fps\<close>, whose chroma
  descriptions all have \<open>planes\<close> planes, and an engine that turns 30 frames per second
  into 333333 ticks per frame.
\<close>

definition example_vlc :: "int \<times> uint32 \<times> uint32 \<Rightarrow> rat \<Rightarrow> uint32 \<Rightarrow> FVlc" where
  "example_vlc q fps planes =
    \<lparr>VideoGetSize = q,
     PlaneCount = (\<lambda>c. planes),
     MediaPlayerGetFps = fps,
     FromSecondsRecip = (\<lambda>f. if f = 30 then 333333 else 0)\<rparr>"

definition zero_table :: "nat \<Rightarrow> uint32" where
  "zero_table = (\<lambda>i. 0)"

text \<open>The bridge after it has accepted \<open>RV32\<close> at 640 x 480 and 30 frames per second.\<close>

definition negotiated_cb :: "64 FVlcMediaCallbacks" where
  "negotiated_cb =
    FVlcMediaCallbacks_ctor
      \<lparr>VideoBufferDim := \<lparr>X = 640, Y = 480\<rparr>,
       VideoBufferStride := 2560,
       VideoFrameDuration := 333333,
       VideoOutputDim := \<lparr>X = 640, Y = 480\<rparr>,
       VideoSampleFormat := CharBGRA\<rparr>"

text \<open>
  A texture sample \<open>Initialize\<close> that always succeeds and stores its arguments, a pooled
  sample whose buffer is at address 4096, an allocator with no live block, and a plane
  table of null pointers.
\<close>

definition example_Initialize ::
  "64 FVlcMediaTextureSample \<Rightarrow> FIntPoint \<Rightarrow> FIntPoint \<Rightarrow> EMediaTextureSampleFormat \<Rightarrow>
   64 word \<Rightarrow> FTimespan \<Rightarrow> bool \<times> 64 FVlcMediaTextureSample" where
  "example_Initialize smp bd od f st d =
    (True, smp\<lparr>TS_Dim := bd, TS_OutputDim := od, TS_SampleFormat := f, TS_Stride := st,
               TS_Duration := d\<rparr>)"

definition pooled_sample :: "64 FVlcMediaTextureSample" where
  "pooled_sample =
    \<lparr>TS_Buffer = Addr 4096, TS_Data = (\<lambda>i. 0), TS_Dim = ZeroValue, TS_OutputDim = ZeroValue,
     TS_SampleFormat = Undefined_Texture, TS_Stride = 0, TS_Duration = 0, TS_Time = 0\<rparr>"

definition empty_memory :: FMemory where
  "empty_memory = \<lparr>NextAddr = 1, Blocks = []\<rparr>"

definition null_planes :: "nat \<Rightarrow> ptr" where
  "null_planes = (\<lambda>i. Nullptr)"



text \<open>The bridge after it has accepted \<open>S16N\<close> at 44100 Hz with two channels.\<close>

definition audio_cb :: "64 FVlcMediaCallbacks" where
  "audio_cb =
    FVlcMediaCallbacks_ctor
      \<lparr>AudioChannels := 2, AudioSampleFormat := Int16, AudioSampleRate := 44100,
       AudioSampleSize := 2\<rparr>"

section \<open>Results on the audio format negotiation\<close>

lemma clamp8_unat:
  fixes c :: uint32
  shows "unat (if 8 < c then 8 else c) = min (unat c) 8"
  by (simp add: word_less_nat_alt min_def)

lemma audio_setup_fields:
  fixes Callbacks :: "'s::len FVlcMediaCallbacks"
  assumes "fmt_sz =
        (if take 4 Format = ''S8  '' then (Format, Int8, 1)
         else if take 4 Format = ''S16N'' then (Format, Int16, 2)
         else if take 4 Format = ''S32N'' then (Format, Int32, 4)
         else if take 4 Format = ''FL32'' then (Format, Float, 4)
         else if take 4 Format = ''FL64'' then (Format, Double, 8)
         else if take 4 Format = ''U8  '' then (''S8  '' @ drop 4 Format, Int8, 1)
         else (''S16N'' @ drop 4 Format, Int16, 2))"
  shows "StaticAudioSetupCallback (Some Callbacks) Format Rate Channels =
     \<lparr>asr_return = 0,
      asr_Callbacks = Some (Callbacks
               \<lparr>AudioSampleFormat := fst (snd fmt_sz),
                AudioSampleSize := snd (snd fmt_sz),
                AudioChannels := (if 8 < Channels then 8 else Channels),
                AudioSampleRate := Rate\<rparr>),
      asr_Format = fst fmt_sz,
      asr_Rate = Rate,
      asr_Channels = (if 8 < Channels then 8 else Channels)\<rparr>"
  unfolding assms StaticAudioSetupCallback_def Memcmp4_def Memcpy4_def
  by (simp add: Let_def)

text \<open>
  Claim C4. With a non-null context the audio negotiation always returns 0 and stores
  what it returns. The accepted channel count is the minimum of the proposed count and
  8, so it never exceeds 8, and the rate is passed through. A tag whose four bytes are
  \<open>S8\<close>, \<open>S16N\<close>, \<open>S32N\<close>, \<open>FL32\<close> or \<open>FL64\<close> is left as it is and yields
  int8/1, int16/2, int32/4, float/4, double/8; the tag \<open>U8\<close> is overwritten with \<open>S8\<close>
  and yields int8/1; every other tag is overwritten with \<open>S16N\<close> and yields int16/2.
\<close>

theorem audio_setup_negotiates:
  fixes Callbacks :: "'s::len FVlcMediaCallbacks"
  shows
  "\<exists>cb'.
    (let r = StaticAudioSetupCallback (Some Callbacks) Format Rate Channels in
     asr_return r = 0 \<and> asr_Callbacks r = Some cb' \<and>
     asr_Channels r = AudioChannels cb' \<and>
     unat (asr_Channels r) = min (unat Channels) 8 \<and>
     unat (asr_Channels r) \<le> 8 \<and>
     asr_Rate r = Rate \<and> AudioSampleRate cb' = Rate \<and>
     (take 4 Format = ''S8  '' \<longrightarrow>
        asr_Format r = Format \<and> AudioSampleFormat cb' = Int8 \<and> AudioSampleSize cb' = 1) \<and>
     (take 4 Format = ''S16N'' \<longrightarrow>
        asr_Format r = Format \<and> AudioSampleFormat cb' = Int16 \<and> AudioSampleSize cb' = 2) \<and>
     (take 4 Format = ''S32N'' \<longrightarrow>
        asr_Format r = Format \<and> AudioSampleFormat cb' = Int32 \<and> AudioSampleSize cb' = 4) \<and>
     (take 4 Format = ''FL32'' \<longrightarrow>
        asr_Format r = Format \<and> AudioSampleFormat cb' = Float \<and> AudioSampleSize cb' = 4) \<and>
     (take 4 Format = ''FL64'' \<longrightarrow>
        asr_Format r = Format \<and> AudioSampleFormat cb' = Double \<and> AudioSampleSize cb' = 8) \<and>
     (take 4 Format = ''U8  '' \<longrightarrow>
        asr_Format r = ''S8  '' @ drop 4 Format \<and> AudioSampleFormat cb' = Int8 \<and>
        AudioSampleSize cb' = 1) \<and>
     (take 4 Format \<notin> {''S8  '', ''S16N'', ''S32N'', ''FL32'', ''FL64'', ''U8  ''} \<longrightarrow>
        asr_Format r = ''S16N'' @ drop 4 Format \<and> AudioSampleFormat cb' = Int16 \<and>
        AudioSampleSize cb' = 2))"
proof -
  have ch: "unat (if 8 < Channels then 8 else Channels) \<le> 8"
    by (simp add: clamp8_unat)
  show ?thesis
    unfolding audio_setup_fields [OF refl] Let_def
    using ch by (simp add: clamp8_unat)
qed

text \<open>
  The scenario of the specification: tag \<open>U8\<close>, rate 44100, 10 channels on a freshly
  constructed bridge.
\<close>

theorem audio_setup_negotiates_witness:
  "take 4 ''U8  '' = ''U8  '' \<and>
   StaticAudioSetupCallback (Some (FVlcMediaCallbacks_ctor :: 64 FVlcMediaCallbacks))
       ''U8  '' 44100 10 =
     \<lparr>asr_return = 0,
      asr_Callbacks = Some (FVlcMediaCallbacks_ctor
         \<lparr>AudioSampleFormat := Int8, AudioSampleSize := 1, AudioChannels := 8,
          AudioSampleRate := 44100\<rparr>),
      asr_Format = ''S8  '', asr_Rate = 44100, asr_Channels = 8\<rparr>"
  using audio_setup_negotiates
    [of "FVlcMediaCallbacks_ctor :: 64 FVlcMediaCallbacks" "''U8  ''" 44100 10]
  by (simp add: StaticAudioSetupCallback_def Memcmp4_def Memcpy4_def)

section \<open>Results on the video format negotiation\<close>

lemma not_KnownChroma:
  "\<not> KnownChroma c \<longleftrightarrow>
    \<not> Stricmp c ''AYUV'' \<and> \<not> Stricmp c ''RV32'' \<and> \<not> Stricmp c ''UYVY'' \<and>
    \<not> Stricmp c ''Y422'' \<and> \<not> Stricmp c ''UYNV'' \<and> \<not> Stricmp c ''HDYC'' \<and>
    \<not> Stricmp c ''YUY2'' \<and> \<not> Stricmp c ''V422'' \<and> \<not> Stricmp c ''YUYV'' \<and>
    \<not> Stricmp c ''YVYU''"
  by (simp add: KnownChroma_def ChromaTable_def)

lemma GetMin_nonpositive:
  "sint (GetMin \<lparr>X = px, Y = py\<rparr>) \<le> 0 \<longleftrightarrow> sint px \<le> 0 \<or> sint py \<le> 0"
  by (auto simp add: GetMin_def)

lemma video_setup_null:
  "StaticVideoSetupCallback vlc None Chroma Width Height Pitches Lines =
     video_setup_reject None Chroma Width Height Pitches Lines"
  by (simp add: StaticVideoSetupCallback_def)

lemma video_setup_query_failed:
  assumes "fst (VideoGetSize vlc) \<noteq> 0"
  shows "StaticVideoSetupCallback vlc (Some cb) Chroma Width Height Pitches Lines =
     video_setup_reject
       (Some (cb\<lparr>VideoBufferDim := ZeroValue, VideoOutputDim := ZeroValue,
                 VideoBufferStride := 0\<rparr>))
       Chroma Width Height Pitches Lines"
  using assms by (cases "VideoGetSize vlc") (simp add: StaticVideoSetupCallback_def)

lemma video_setup_nonpositive:
  assumes "VideoGetSize vlc = (0, px, py)" and "sint px \<le> 0 \<or> sint py \<le> 0"
  shows "StaticVideoSetupCallback vlc (Some cb) Chroma Width Height Pitches Lines =
     video_setup_reject (Some (cb\<lparr>VideoOutputDim := \<lparr>X = px, Y = py\<rparr>\<rparr>))
       Chroma Width Height Pitches Lines"
  using assms by (simp add: StaticVideoSetupCallback_def GetMin_nonpositive)

lemma video_setup_positive:
  assumes "VideoGetSize vlc = (0, px, py)" and "0 < sint px" and "0 < sint py"
  shows "StaticVideoSetupCallback vlc (Some cb) Chroma Width Height Pitches Lines =
     video_setup_match_chroma vlc
       (cb\<lparr>VideoOutputDim := \<lparr>X = px, Y = py\<rparr>, VideoBufferDim := \<lparr>X = Width, Y = Height\<rparr>\<rparr>)
       Chroma Width Height Pitches Lines"
  using assms by (simp add: StaticVideoSetupCallback_def GetMin_nonpositive)

lemma match_chroma_known:
  assumes "KnownChroma Chroma"
  shows "\<exists>f s. video_setup_match_chroma vlc cb2 Chroma Width Height Pitches Lines =
     video_setup_accept vlc (cb2\<lparr>VideoSampleFormat := f, VideoBufferStride := s\<rparr>)
       Chroma Width Height Pitches Lines"
proof (cases "Stricmp Chroma ''AYUV''")
  case True
  then show ?thesis unfolding video_setup_match_chroma_def by (simp only: if_True) blast
next
  case a: False
  show ?thesis
  proof (cases "Stricmp Chroma ''RV32''")
    case True
    with a show ?thesis unfolding video_setup_match_chroma_def
      by (simp only: if_True if_False) blast
  next
    case b: False
    show ?thesis
    proof (cases "Stricmp Chroma ''UYVY'' \<or> Stricmp Chroma ''Y422'' \<or>
             Stricmp Chroma ''UYNV'' \<or> Stricmp Chroma ''HDYC''")
      case True
      with a b show ?thesis unfolding video_setup_match_chroma_def
        by (simp only: if_True if_False) blast
    next
      case c: False
      show ?thesis
      proof (cases "Stricmp Chroma ''YUY2'' \<or> Stricmp Chroma ''V422'' \<or>
             Stricmp Chroma ''YUYV''")
        case True
        with a b c show ?thesis unfolding video_setup_match_chroma_def
          by (simp only: if_True if_False) blast
      next
        case d: False
        with a b c assms have "Stricmp Chroma ''YVYU''"
          by (simp add: KnownChroma_def ChromaTable_def)
        with a b c d show ?thesis unfolding video_setup_match_chroma_def
          by (simp only: if_True if_False) blast
      qed
    qed
  qed
qed

lemma match_chroma_unknown:
  assumes "\<not> KnownChroma Chroma"
  shows "video_setup_match_chroma vlc cb2 Chroma Width Height Pitches Lines =
    (if PlaneCount vlc Chroma = 0 then
       video_setup_reject (Some cb2) Chroma Width Height Pitches Lines
     else if 1 < PlaneCount vlc Chroma then
       video_setup_accept vlc
         (cb2\<lparr>VideoBufferDim := \<lparr>X = int32_div (Align (X (VideoOutputDim cb2)) 16) 2,
                                  Y = Align (Y (VideoOutputDim cb2)) 16\<rparr>,
              VideoSampleFormat := CharYUY2,
              VideoBufferStride := scast (int32_div (Align (X (VideoOutputDim cb2)) 16) 2 * 4)\<rparr>)
         (''YUY2'' @ drop 4 Chroma) Width (Align (Y (VideoOutputDim cb2)) 16) Pitches Lines
     else
       video_setup_accept vlc
         (cb2\<lparr>VideoBufferDim := VideoOutputDim cb2, VideoSampleFormat := CharBGRA,
              VideoBufferStride := scast (X (VideoOutputDim cb2) * 4)\<rparr>)
         (''RV32'' @ drop 4 Chroma) Width Height Pitches Lines)"
  using assms
  by (simp add: video_setup_match_chroma_def not_KnownChroma Memcpy4_def Let_def)

text \<open>
  Claim C1 asks that a frame rate that is not positive be rejected before the frame
  duration is computed. The callback has no test of the frame rate. With a rate of 0,
  a size query that succeeds with 640 x 480 and the tag \<open>RV32\<close>, the call passes every
  test that can reject and continues with the tail of the callback, which divides 1.0
  by the rate; this holds whatever the engine makes of the quotient and whatever the
  bridge held before.
\<close>

theorem video_setup_zero_fps_reaches_division:
  fixes cb :: "'s::len FVlcMediaCallbacks"
  shows
  "MediaPlayerGetFps
     \<lparr>VideoGetSize = (0, 640, 480), PlaneCount = planes, MediaPlayerGetFps = 0,
      FromSecondsRecip = engine\<rparr> \<le> 0 \<and>
   StaticVideoSetupCallback
     \<lparr>VideoGetSize = (0, 640, 480), PlaneCount = planes, MediaPlayerGetFps = 0,
      FromSecondsRecip = engine\<rparr>
     (Some cb) ''RV32'' 640 480 Pitches Lines =
   video_setup_accept
     \<lparr>VideoGetSize = (0, 640, 480), PlaneCount = planes, MediaPlayerGetFps = 0,
      FromSecondsRecip = engine\<rparr>
     (cb\<lparr>VideoOutputDim := \<lparr>X = 640, Y = 480\<rparr>, VideoBufferDim := \<lparr>X = 640, Y = 480\<rparr>,
         VideoSampleFormat := CharBGRA, VideoBufferStride := 2560\<rparr>)
     ''RV32'' 640 480 Pitches Lines"
  by (simp add: StaticVideoSetupCallback_def GetMin_def video_setup_match_chroma_def
      Stricmp_def ToLower_def)

text \<open>
  Claim C2, as amended. When the size query fails, the negotiation returns 0 and resets
  the buffer dimensions, the output dimensions and the stride to zero. When the query
  succeeds but a queried dimension is not positive, the negotiation returns 0 as well,
  the output dimensions hold the queried values, and the buffer dimensions and the
  stride keep their prior values.
\<close>

theorem video_setup_dimension_rejection:
  fixes cb :: "'s::len FVlcMediaCallbacks"
  shows
  "(fst (VideoGetSize vlc) \<noteq> 0 \<longrightarrow>
      vsr_return (StaticVideoSetupCallback vlc (Some cb) Chroma Width Height Pitches Lines) = 0 \<and>
      vsr_Callbacks (StaticVideoSetupCallback vlc (Some cb) Chroma Width Height Pitches Lines) =
        Some (cb\<lparr>VideoBufferDim := ZeroValue, VideoOutputDim := ZeroValue,
                  VideoBufferStride := 0\<rparr>)) \<and>
   (VideoGetSize vlc = (0, px, py) \<and> (sint px \<le> 0 \<or> sint py \<le> 0) \<longrightarrow>
      vsr_return (StaticVideoSetupCallback vlc (Some cb) Chroma Width Height Pitches Lines) = 0 \<and>
      vsr_Callbacks (StaticVideoSetupCallback vlc (Some cb) Chroma Width Height Pitches Lines) =
        Some (cb\<lparr>VideoOutputDim := \<lparr>X = px, Y = py\<rparr>\<rparr>))"
proof (intro conjI impI)
  assume f: "fst (VideoGetSize vlc) \<noteq> 0"
  show "vsr_return (StaticVideoSetupCallback vlc (Some cb) Chroma Width Height Pitches Lines) = 0"
    by (simp add: video_setup_query_failed [OF f] video_setup_reject_def)
  show "vsr_Callbacks (StaticVideoSetupCallback vlc (Some cb) Chroma Width Height Pitches Lines) =
        Some (cb\<lparr>VideoBufferDim := ZeroValue, VideoOutputDim := ZeroValue,
                  VideoBufferStride := 0\<rparr>)"
    by (simp add: video_setup_query_failed [OF f] video_setup_reject_def)
next
  assume a: "VideoGetSize vlc = (0, px, py) \<and> (sint px \<le> 0 \<or> sint py \<le> 0)"
  then have q0: "VideoGetSize vlc = (0, px, py)" and np: "sint px \<le> 0 \<or> sint py \<le> 0"
    by auto
  show "vsr_return (StaticVideoSetupCallback vlc (Some cb) Chroma Width Height Pitches Lines) = 0"
    by (simp add: video_setup_nonpositive [OF q0 np] video_setup_reject_def)
  show "vsr_Callbacks (StaticVideoSetupCallback vlc (Some cb) Chroma Width Height Pitches Lines) =
        Some (cb\<lparr>VideoOutputDim := \<lparr>X = px, Y = py\<rparr>\<rparr>)"
    by (simp add: video_setup_nonpositive [OF q0 np] video_setup_reject_def)
qed

text \<open>A failed query, and a successful query that reports a height of 0.\<close>

theorem video_setup_dimension_rejection_witness:
  "fst (VideoGetSize (example_vlc (- 1, 0, 0) 30 1)) \<noteq> 0 \<and>
   vsr_return (StaticVideoSetupCallback (example_vlc (- 1, 0, 0) 30 1) (Some negotiated_cb)
      ''RV32'' 640 480 zero_table zero_table) = 0 \<and>
   vsr_Callbacks (StaticVideoSetupCallback (example_vlc (- 1, 0, 0) 30 1) (Some negotiated_cb)
      ''RV32'' 640 480 zero_table zero_table) =
     Some (negotiated_cb\<lparr>VideoBufferDim := ZeroValue, VideoOutputDim := ZeroValue,
                  VideoBufferStride := 0\<rparr>) \<and>
   VideoGetSize (example_vlc (0, 640, 0) 30 1) = (0, 640, 0) \<and> sint (0 :: int32) \<le> 0 \<and>
   vsr_return (StaticVideoSetupCallback (example_vlc (0, 640, 0) 30 1) (Some negotiated_cb)
      ''RV32'' 640 480 zero_table zero_table) = 0 \<and>
   vsr_Callbacks (StaticVideoSetupCallback (example_vlc (0, 640, 0) 30 1) (Some negotiated_cb)
      ''RV32'' 640 480 zero_table zero_table) =
     Some (negotiated_cb\<lparr>VideoOutputDim := \<lparr>X = 640, Y = 0\<rparr>\<rparr>)"
  using video_setup_dimension_rejection [of "example_vlc (- 1, 0, 0) 30 1" negotiated_cb
      "''RV32''" 640 480 zero_table zero_table]
    video_setup_dimension_rejection [of "example_vlc (0, 640, 0) 30 1" negotiated_cb
      "''RV32''" 640 480 zero_table zero_table 640 0]
  by (simp add: example_vlc_def)

text \<open>
  Claim C2 as stated fails: after \<open>RV32\<close> at 640 x 480 has been accepted, a negotiation
  whose size query reports a width of 0 is rejected, and afterwards the buffer
  dimensions are still 640 x 480, the stride is still 2560 and the output dimensions
  are the queried 0 x 480.
\<close>

theorem video_setup_nonpositive_keeps_dims:
  "VideoGetSize (example_vlc (0, 0, 480) 30 1) = (0, 0, 480) \<and> sint (0 :: int32) \<le> 0 \<and>
   vsr_return (StaticVideoSetupCallback (example_vlc (0, 0, 480) 30 1) (Some negotiated_cb)
      ''RV32'' 640 480 zero_table zero_table) = 0 \<and>
   map_option VideoBufferDim
     (vsr_Callbacks (StaticVideoSetupCallback (example_vlc (0, 0, 480) 30 1) (Some negotiated_cb)
        ''RV32'' 640 480 zero_table zero_table)) = Some \<lparr>X = 640, Y = 480\<rparr> \<and>
   map_option VideoOutputDim
     (vsr_Callbacks (StaticVideoSetupCallback (example_vlc (0, 0, 480) 30 1) (Some negotiated_cb)
        ''RV32'' 640 480 zero_table zero_table)) = Some \<lparr>X = 0, Y = 480\<rparr> \<and>
   map_option VideoBufferStride
     (vsr_Callbacks (StaticVideoSetupCallback (example_vlc (0, 0, 480) 30 1) (Some negotiated_cb)
        ''RV32'' 640 480 zero_table zero_table)) = Some 2560"
  by (simp add: StaticVideoSetupCallback_def example_vlc_def GetMin_def video_setup_reject_def
      negotiated_cb_def)

subsection \<open>Chroma tags outside the table\<close>

text \<open>
  \<open>Align (v, 16)\<close> is the least multiple of 16 that is not below \<open>v\<close>, as long as that
  multiple is an \<open>int32\<close>; halving a non-negative value is the integer quotient.
\<close>

lemma and_not_15:
  fixes w :: "32 word"
  shows "w AND NOT 15 = push_bit 4 (drop_bit 4 w)"
proof -
  have m: "(15::32 word) = mask 4" by (simp add: mask_eq_exp_minus_1)
  show ?thesis
    unfolding m
    by (rule bit_eqI) (auto simp add: bit_simps)
qed

lemma unat_and_not_15:
  fixes w :: "32 word"
  shows "unat (w AND NOT 15) = unat w div 16 * 16"
proof -
  have b: "unat w < 4294967296" using unsigned_less [of w, where ?'a = nat] by simp
  then have c: "unat w div 16 < 4294967296" by simp
  have d: "unat w div 16 * 16 < 4294967296" using b by simp
  have "unat (push_bit 4 (drop_bit 4 w)) = unat w div 16 * 16"
    using c d
    by (simp add: unat_drop_bit_eq push_bit_eq_mult drop_bit_eq_div unat_word_ariths)
  then show ?thesis by (simp only: and_not_15)
qed

lemma sint_eq_unat_small:
  fixes w :: "32 word"
  assumes "unat w < 2147483648"
  shows "sint w = int (unat w)"
proof -
  have "uint w < 2147483648" using assms unfolding uint_nat by linarith
  moreover have "- 2147483648 \<le> uint w"
    using uint_ge_0 [of w] by linarith
  ultimately have "signed_take_bit 31 (uint w) = uint w"
    by (intro signed_take_bit_int_eq_self) simp_all
  then show ?thesis by (simp add: sint_uint)
qed

lemma unat_eq_sint_nonneg:
  fixes w :: "32 word"
  assumes "0 \<le> sint w"
  shows "int (unat w) = sint w"
proof -
  have "sint w < 2147483648" using sint_lt [of w] by simp
  then have "take_bit 32 (sint w) = sint w"
    using assms by (intro take_bit_int_eq_self) simp_all
  then show ?thesis using uint_sint [of w] by simp
qed

lemma Align_16_sint:
  assumes "0 \<le> sint v" and "sint v \<le> 2147483632"
  shows "sint (Align v 16) = (sint v + 15) div 16 * 16"
proof -
  have v: "int (unat v) = sint v" by (rule unat_eq_sint_nonneg [OF assms(1)])
  then have le: "unat v \<le> 2147483632" using assms(2) by linarith
  then have s: "unat (v + 15) = unat v + 15"
    by (simp add: unat_word_ariths)
  have "Align v 16 = (v + 15) AND NOT 15"
    by (simp add: Align_def ac_simps)
  then have a: "unat (Align v 16) = (unat v + 15) div 16 * 16"
    by (simp only: unat_and_not_15 s)
  then have "unat (Align v 16) < 2147483648" using le by simp
  then have "sint (Align v 16) = int ((unat v + 15) div 16 * 16)"
    by (simp only: sint_eq_unat_small a)
  also have "\<dots> = (int (unat v) + 15) div 16 * 16"
    by (simp add: zdiv_int)
  finally show ?thesis by (simp only: v)
qed

lemma int32_div_2_sint:
  assumes "0 \<le> sint v"
  shows "sint (int32_div v 2) = sint v div 2"
proof -
  have "sint v < 2147483648" using sint_lt [of v] by simp
  then have b: "sint v div 2 < 2 ^ 31" "- (2 ^ 31) \<le> sint v div 2" using assms by simp_all
  have c: "sint v sdiv 2 = sint v div 2"
    using assms by (simp add: signed_divide_int_def sgn_if)
  have "sint (word_of_int (sint v div 2) :: 32 word) = signed_take_bit 31 (sint v div 2)"
    by (simp only: sint_sbintrunc') simp
  also have "\<dots> = sint v div 2"
    using b by (intro signed_take_bit_int_eq_self)
  finally show ?thesis by (simp add: int32_div_def c del: of_int_sint)
qed

lemma multi_plane_buffer_dim_value:
  assumes "0 \<le> sint px" and "sint px \<le> 2147483632"
  shows "sint (int32_div (Align px 16) 2) = (sint px + 15) div 16 * 8"
proof -
  have a: "sint (Align px 16) = (sint px + 15) div 16 * 16"
    by (rule Align_16_sint [OF assms])
  then have "0 \<le> sint (Align px 16)" using assms(1) by simp
  then have "sint (int32_div (Align px 16) 2) = sint (Align px 16) div 2"
    by (rule int32_div_2_sint)
  then show ?thesis using a by simp
qed

lemma video_setup_zero_planes_rejects:
  fixes Opaque :: "'s::len FVlcMediaCallbacks option"
  assumes "\<not> KnownChroma Chroma" and "PlaneCount vlc Chroma = 0"
  shows "vsr_return (StaticVideoSetupCallback vlc Opaque Chroma Width Height Pitches Lines) = 0"
proof (cases Opaque)
  case None
  then show ?thesis by (simp add: video_setup_null video_setup_reject_def)
next
  case (Some cb)
  obtain rc px py where q: "VideoGetSize vlc = (rc, px, py)"
    by (cases "VideoGetSize vlc") auto
  show ?thesis
  proof (cases "rc = 0")
    case False
    then show ?thesis
      using Some q by (simp add: video_setup_query_failed video_setup_reject_def)
  next
    case True
    then have q0: "VideoGetSize vlc = (0, px, py)" using q by simp
    show ?thesis
    proof (cases "0 < sint px \<and> 0 < sint py")
      case False
      then have np: "sint px \<le> 0 \<or> sint py \<le> 0" by auto
      show ?thesis
        using Some by (simp add: video_setup_nonpositive [OF q0 np] video_setup_reject_def)
    next
      case True
      then have pos: "0 < sint px" "0 < sint py" by auto
      show ?thesis
        using Some assms(2)
        by (simp add: video_setup_positive [OF q0 pos] match_chroma_unknown [OF assms(1)]
            video_setup_reject_def)
    qed
  qed
qed

text \<open>
  Claim C5. Let the chroma tag be outside the table. If its description has no plane,
  the negotiation returns 0. Otherwise let the size query succeed with positive
  dimensions \<open>px\<close> and \<open>py\<close>. If the description has more than one plane, the first four
  bytes of the tag buffer become \<open>YUY2\<close>, the buffer width is \<open>Align (px, 16) / 2\<close>, the
  buffer height is \<open>Align (py, 16)\<close> and the format is YUY2. If it has exactly one plane,
  the first four bytes of the tag buffer become \<open>RV32\<close>, the buffer dimensions are the
  output dimensions \<open>px\<close> and \<open>py\<close>, and the format is packed BGRA. The whole result of
  the call is given in both cases.
\<close>

theorem video_setup_unrecognized_chroma:
  fixes cb :: "'s::len FVlcMediaCallbacks"
  assumes "\<not> KnownChroma Chroma"
  shows
  "(PlaneCount vlc Chroma = 0 \<longrightarrow>
      vsr_return (StaticVideoSetupCallback vlc (Some cb) Chroma Width Height Pitches Lines) = 0) \<and>
   (VideoGetSize vlc = (0, px, py) \<and> 0 < sint px \<and> 0 < sint py \<and> 1 < PlaneCount vlc Chroma \<longrightarrow>
      StaticVideoSetupCallback vlc (Some cb) Chroma Width Height Pitches Lines =
        \<lparr>vsr_return = 1,
         vsr_Callbacks = Some (cb
           \<lparr>VideoOutputDim := \<lparr>X = px, Y = py\<rparr>,
            VideoBufferDim := \<lparr>X = int32_div (Align px 16) 2, Y = Align py 16\<rparr>,
            VideoSampleFormat := CharYUY2,
            VideoBufferStride := scast (int32_div (Align px 16) 2 * 4),
            VideoFrameDuration := FromSecondsRecip vlc (MediaPlayerGetFps vlc)\<rparr>),
         vsr_Chroma = ''YUY2'' @ drop 4 Chroma,
         vsr_Width = Width,
         vsr_Height = Align py 16,
         vsr_Pitches = Pitches(0 := ucast (scast (int32_div (Align px 16) 2 * 4) :: 's word)),
         vsr_Lines = Lines(0 := Align py 16)\<rparr>) \<and>
   (VideoGetSize vlc = (0, px, py) \<and> 0 < sint px \<and> 0 < sint py \<and> PlaneCount vlc Chroma = 1 \<longrightarrow>
      StaticVideoSetupCallback vlc (Some cb) Chroma Width Height Pitches Lines =
        \<lparr>vsr_return = 1,
         vsr_Callbacks = Some (cb
           \<lparr>VideoOutputDim := \<lparr>X = px, Y = py\<rparr>,
            VideoBufferDim := \<lparr>X = px, Y = py\<rparr>,
            VideoSampleFormat := CharBGRA,
            VideoBufferStride := scast (px * 4),
            VideoFrameDuration := FromSecondsRecip vlc (MediaPlayerGetFps vlc)\<rparr>),
         vsr_Chroma = ''RV32'' @ drop 4 Chroma,
         vsr_Width = Width,
         vsr_Height = Height,
         vsr_Pitches = Pitches(0 := ucast (scast (px * 4) :: 's word)),
         vsr_Lines = Lines(0 := py)\<rparr>)"
proof (intro conjI impI)
  assume z: "PlaneCount vlc Chroma = 0"
  show "vsr_return (StaticVideoSetupCallback vlc (Some cb) Chroma Width Height Pitches Lines) = 0"
    by (rule video_setup_zero_planes_rejects [OF assms z])
next
  assume a: "VideoGetSize vlc = (0, px, py) \<and> 0 < sint px \<and> 0 < sint py \<and> 1 < PlaneCount vlc Chroma"
  then have q0: "VideoGetSize vlc = (0, px, py)" and pos: "0 < sint px" "0 < sint py"
    and m: "1 < PlaneCount vlc Chroma" by auto
  from m have nz: "PlaneCount vlc Chroma \<noteq> 0" by auto
  show "StaticVideoSetupCallback vlc (Some cb) Chroma Width Height Pitches Lines =
        \<lparr>vsr_return = 1,
         vsr_Callbacks = Some (cb
           \<lparr>VideoOutputDim := \<lparr>X = px, Y = py\<rparr>,
            VideoBufferDim := \<lparr>X = int32_div (Align px 16) 2, Y = Align py 16\<rparr>,
            VideoSampleFormat := CharYUY2,
            VideoBufferStride := scast (int32_div (Align px 16) 2 * 4),
            VideoFrameDuration := FromSecondsRecip vlc (MediaPlayerGetFps vlc)\<rparr>),
         vsr_Chroma = ''YUY2'' @ drop 4 Chroma,
         vsr_Width = Width,
         vsr_Height = Align py 16,
         vsr_Pitches = Pitches(0 := ucast (scast (int32_div (Align px 16) 2 * 4) :: 's word)),
         vsr_Lines = Lines(0 := Align py 16)\<rparr>"
    using m nz
    by (simp add: video_setup_positive [OF q0 pos] match_chroma_unknown [OF assms]
        video_setup_accept_def)
next
  assume a: "VideoGetSize vlc = (0, px, py) \<and> 0 < sint px \<and> 0 < sint py \<and> PlaneCount vlc Chroma = 1"
  then have q0: "VideoGetSize vlc = (0, px, py)" and pos: "0 < sint px" "0 < sint py"
    and m: "PlaneCount vlc Chroma = 1" by auto
  show "StaticVideoSetupCallback vlc (Some cb) Chroma Width Height Pitches Lines =
        \<lparr>vsr_return = 1,
         vsr_Callbacks = Some (cb
           \<lparr>VideoOutputDim := \<lparr>X = px, Y = py\<rparr>,
            VideoBufferDim := \<lparr>X = px, Y = py\<rparr>,
            VideoSampleFormat := CharBGRA,
            VideoBufferStride := scast (px * 4),
            VideoFrameDuration := FromSecondsRecip vlc (MediaPlayerGetFps vlc)\<rparr>),
         vsr_Chroma = ''RV32'' @ drop 4 Chroma,
         vsr_Width = Width,
         vsr_Height = Height,
         vsr_Pitches = Pitches(0 := ucast (scast (px * 4) :: 's word)),
         vsr_Lines = Lines(0 := py)\<rparr>"
    using m
    by (simp add: video_setup_positive [OF q0 pos] match_chroma_unknown [OF assms]
        video_setup_accept_def)
qed

text \<open>
  An output of 642 x 481: three planes give a buffer of 328 x 496 and the tag \<open>YUY2\<close>,
  one plane gives a buffer of 642 x 481 and the tag \<open>RV32\<close>, no plane is rejected.
\<close>

theorem video_setup_unrecognized_chroma_witness:
  "\<not> KnownChroma ''I420'' \<and>
   PlaneCount (example_vlc (0, 642, 481) 30 0) ''I420'' = 0 \<and>
   vsr_return (StaticVideoSetupCallback (example_vlc (0, 642, 481) 30 0) (Some negotiated_cb)
      ''I420'' 642 481 zero_table zero_table) = 0 \<and>
   VideoGetSize (example_vlc (0, 642, 481) 30 3) = (0, 642, 481) \<and>
   0 < sint (642 :: int32) \<and> 0 < sint (481 :: int32) \<and>
   1 < PlaneCount (example_vlc (0, 642, 481) 30 3) ''I420'' \<and>
   StaticVideoSetupCallback (example_vlc (0, 642, 481) 30 3) (Some negotiated_cb)
      ''I420'' 642 481 zero_table zero_table =
     \<lparr>vsr_return = 1,
      vsr_Callbacks = Some (negotiated_cb
        \<lparr>VideoOutputDim := \<lparr>X = 642, Y = 481\<rparr>,
         VideoBufferDim := \<lparr>X = 328, Y = 496\<rparr>,
         VideoSampleFormat := CharYUY2,
         VideoBufferStride := 1312\<rparr>),
      vsr_Chroma = ''YUY2'', vsr_Width = 642, vsr_Height = 496,
      vsr_Pitches = zero_table(0 := 1312), vsr_Lines = zero_table(0 := 496)\<rparr> \<and>
   VideoGetSize (example_vlc (0, 642, 481) 30 1) = (0, 642, 481) \<and>
   PlaneCount (example_vlc (0, 642, 481) 30 1) ''GREY'' = 1 \<and>
   StaticVideoSetupCallback (example_vlc (0, 642, 481) 30 1) (Some negotiated_cb)
      ''GREY'' 642 481 zero_table zero_table =
     \<lparr>vsr_return = 1,
      vsr_Callbacks = Some (negotiated_cb
        \<lparr>VideoOutputDim := \<lparr>X = 642, Y = 481\<rparr>,
         VideoBufferDim := \<lparr>X = 642, Y = 481\<rparr>,
         VideoSampleFormat := CharBGRA,
         VideoBufferStride := 2568\<rparr>),
      vsr_Chroma = ''RV32'', vsr_Width = 642, vsr_Height = 481,
      vsr_Pitches = zero_table(0 := 2568), vsr_Lines = zero_table(0 := 481)\<rparr>"
proof -
  have k: "\<not> KnownChroma ''I420''" "\<not> KnownChroma ''GREY''"
    by (simp_all add: KnownChroma_def ChromaTable_def Stricmp_def ToLower_def)
  have a: "Align 642 16 = 656" "int32_div 656 2 = 328" "Align 481 16 = 496"
    by (simp_all add: Align_def int32_div_def signed_divide_int_def)
  show ?thesis
    using video_setup_unrecognized_chroma [OF k(1), of "example_vlc (0, 642, 481) 30 0"
        negotiated_cb 642 481 zero_table zero_table 642 481]
      video_setup_unrecognized_chroma [OF k(1), of "example_vlc (0, 642, 481) 30 3"
        negotiated_cb 642 481 zero_table zero_table 642 481]
      video_setup_unrecognized_chroma [OF k(2), of "example_vlc (0, 642, 481) 30 1"
        negotiated_cb 642 481 zero_table zero_table 642 481]
      k(1)
    by (simp add: example_vlc_def a negotiated_cb_def)
qed

text \<open>
  Claim C10. A call that passes the dimension tests and is rejected because the
  unrecognized chroma has no plane returns 0 and leaves the bridge changed: the buffer
  dimensions are the proposed width and height (and the output dimensions the queried
  ones), while stride, sample format and frame duration have their prior values.
\<close>

theorem video_setup_zero_planes_not_atomic:
  fixes cb :: "'s::len FVlcMediaCallbacks"
  assumes "VideoGetSize vlc = (0, px, py)" and "0 < sint px" and "0 < sint py"
    and "\<not> KnownChroma Chroma" and "PlaneCount vlc Chroma = 0"
  shows
  "\<exists>cb'. StaticVideoSetupCallback vlc (Some cb) Chroma Width Height Pitches Lines =
      \<lparr>vsr_return = 0, vsr_Callbacks = Some cb', vsr_Chroma = Chroma, vsr_Width = Width,
       vsr_Height = Height, vsr_Pitches = Pitches, vsr_Lines = Lines\<rparr> \<and>
     cb' = cb\<lparr>VideoOutputDim := \<lparr>X = px, Y = py\<rparr>, VideoBufferDim := \<lparr>X = Width, Y = Height\<rparr>\<rparr> \<and>
     VideoBufferDim cb' = \<lparr>X = Width, Y = Height\<rparr> \<and>
     VideoBufferStride cb' = VideoBufferStride cb \<and>
     VideoSampleFormat cb' = VideoSampleFormat cb \<and>
     VideoFrameDuration cb' = VideoFrameDuration cb"
  using assms(5)
  by (simp add: video_setup_positive [OF assms(1-3)] match_chroma_unknown [OF assms(4)]
      video_setup_reject_def)

text \<open>
  After \<open>RV32\<close> at 640 x 480, a rejected proposal of 320 x 240 leaves buffer dimensions
  320 x 240 beside the old stride 2560.
\<close>

theorem video_setup_zero_planes_not_atomic_witness:
  "VideoGetSize (example_vlc (0, 640, 480) 30 0) = (0, 640, 480) \<and>
   0 < sint (640 :: int32) \<and> 0 < sint (480 :: int32) \<and> \<not> KnownChroma ''XXXX'' \<and>
   PlaneCount (example_vlc (0, 640, 480) 30 0) ''XXXX'' = 0 \<and>
   StaticVideoSetupCallback (example_vlc (0, 640, 480) 30 0) (Some negotiated_cb) ''XXXX''
       320 240 zero_table zero_table =
     \<lparr>vsr_return = 0,
      vsr_Callbacks = Some (negotiated_cb\<lparr>VideoBufferDim := \<lparr>X = 320, Y = 240\<rparr>\<rparr>),
      vsr_Chroma = ''XXXX'', vsr_Width = 320,
      vsr_Height = 240, vsr_Pitches = zero_table, vsr_Lines = zero_table\<rparr> \<and>
   VideoBufferStride negotiated_cb = 2560 \<and>
   VideoSampleFormat negotiated_cb = CharBGRA \<and>
   VideoFrameDuration negotiated_cb = 333333"
proof -
  have k: "\<not> KnownChroma ''XXXX''"
    by (simp add: KnownChroma_def ChromaTable_def Stricmp_def ToLower_def)
  have q: "VideoGetSize (example_vlc (0, 640, 480) 30 0) = (0, 640, 480)"
    and p: "PlaneCount (example_vlc (0, 640, 480) 30 0) ''XXXX'' = 0"
    by (simp_all add: example_vlc_def)
  have pos: "0 < sint (640 :: int32)" "0 < sint (480 :: int32)" by simp_all
  show ?thesis
    using video_setup_zero_planes_not_atomic [OF q pos k p, of negotiated_cb 320 240
        zero_table zero_table] k q p
    by (simp add: negotiated_cb_def)
qed

section \<open>Results on the video lock callback\<close>

lemma video_lock_scratch_result:
  fixes Callbacks :: "'s::len FVlcMediaCallbacks"
  shows "vlr_return (video_lock_scratch Callbacks Planes m) = None"
    and "vlr_Callbacks (video_lock_scratch Callbacks Planes m) = Callbacks"
    and "vlr_Planes (video_lock_scratch Callbacks Planes m) 0 \<noteq> Nullptr"
    and "BlockSize (vlr_Memory (video_lock_scratch Callbacks Planes m))
           (vlr_Planes (video_lock_scratch Callbacks Planes m) 0) =
         Some (unat (VideoBufferStride Callbacks * scast (Y (VideoBufferDim Callbacks))))"
  by (simp_all add: video_lock_scratch_def Malloc_def BlockSize_def)

lemma video_lock_duplicate:
  assumes "VideoPreviousTime Callbacks = CurrentTime Callbacks"
  shows "StaticVideoLockCallback MaxPlanes Acquire Initialize (Some Callbacks) Planes m =
     Inr (video_lock_scratch Callbacks (\<lambda>i. if i < MaxPlanes then Nullptr else Planes i) m)"
  using assms by (simp add: StaticVideoLockCallback_def)

lemma video_lock_no_sample:
  assumes "VideoPreviousTime Callbacks \<noteq> CurrentTime Callbacks"
    and "case Acquire of
           None \<Rightarrow> True
         | Some smp \<Rightarrow>
             \<not> fst (Initialize smp (VideoBufferDim Callbacks) (VideoOutputDim Callbacks)
                     (VideoSampleFormat Callbacks) (VideoBufferStride Callbacks)
                     (VideoFrameDuration Callbacks))"
  shows "StaticVideoLockCallback MaxPlanes Acquire Initialize (Some Callbacks) Planes m =
     Inr (video_lock_scratch Callbacks (\<lambda>i. if i < MaxPlanes then Nullptr else Planes i) m)"
  using assms
  by (auto simp add: StaticVideoLockCallback_def Let_def split: option.splits prod.splits)

lemma video_lock_success:
  assumes "VideoPreviousTime Callbacks \<noteq> CurrentTime Callbacks"
    and "Acquire = Some smp"
    and "Initialize smp (VideoBufferDim Callbacks) (VideoOutputDim Callbacks)
           (VideoSampleFormat Callbacks) (VideoBufferStride Callbacks)
           (VideoFrameDuration Callbacks) = (True, smp')"
  shows "StaticVideoLockCallback MaxPlanes Acquire Initialize (Some Callbacks) Planes m =
     Inr \<lparr>vlr_return = Some smp',
          vlr_Callbacks = Callbacks\<lparr>VideoPreviousTime := CurrentTime Callbacks\<rparr>,
          vlr_Planes = (\<lambda>i. if i < MaxPlanes then Nullptr else Planes i)(0 := TS_Buffer smp'),
          vlr_Memory = m\<rparr>"
  using assms by (simp add: StaticVideoLockCallback_def)

text \<open>
  Claim C3. With a non-null context the lock callback returns normally in every case.
  \<^item> If the last-lock time stamp equals the playback clock, or the pool yields no sample,
    or the sample's \<open>Initialize\<close> fails, it returns the null handle, \<open>Planes[0]\<close> is a
    non-null block of \<open>VideoBufferStride * VideoBufferDim.Y\<close> bytes (the product in the
    stride's unsigned type) newly taken from the allocator, and the bridge, hence the
    last-lock time stamp, is unchanged.
  \<^item> In particular, when the last-lock time stamp equals the playback clock, two
    consecutive calls (whatever the pool does) both return the null handle and leave
    the time stamp as it was.
  \<^item> In the remaining case the pool yields a sample and \<open>Initialize\<close> succeeds: the
    handle is that sample, \<open>Planes[0]\<close> is its buffer, the last-lock time stamp becomes
    the playback clock and nothing is allocated.
\<close>

theorem video_lock_discards_or_advances:
  fixes cb :: "'s::len FVlcMediaCallbacks"
  shows
  "(VideoPreviousTime cb = CurrentTime cb \<or>
    (case Acquire of
       None \<Rightarrow> True
     | Some smp \<Rightarrow>
         \<not> fst (Initialize smp (VideoBufferDim cb) (VideoOutputDim cb) (VideoSampleFormat cb)
                 (VideoBufferStride cb) (VideoFrameDuration cb))) \<longrightarrow>
    (\<exists>r. StaticVideoLockCallback MaxPlanes Acquire Initialize (Some cb) Planes m = Inr r \<and>
         vlr_return r = None \<and>
         vlr_Planes r 0 \<noteq> Nullptr \<and>
         BlockSize (vlr_Memory r) (vlr_Planes r 0) =
           Some (unat (VideoBufferStride cb * scast (Y (VideoBufferDim cb)))) \<and>
         vlr_Callbacks r = cb \<and>
         VideoPreviousTime (vlr_Callbacks r) = VideoPreviousTime cb)) \<and>
   (VideoPreviousTime cb = CurrentTime cb \<longrightarrow>
    (\<forall>MaxPlanes2 Acquire2 Initialize2 Planes2.
      \<exists>r1 r2.
         StaticVideoLockCallback MaxPlanes Acquire Initialize (Some cb) Planes m = Inr r1 \<and>
         StaticVideoLockCallback MaxPlanes2 Acquire2 Initialize2 (Some (vlr_Callbacks r1))
           Planes2 (vlr_Memory r1) = Inr r2 \<and>
         vlr_return r1 = None \<and> vlr_return r2 = None \<and>
         VideoPreviousTime (vlr_Callbacks r2) = VideoPreviousTime cb)) \<and>
   (\<not> (VideoPreviousTime cb = CurrentTime cb \<or>
       (case Acquire of
          None \<Rightarrow> True
        | Some smp \<Rightarrow>
            \<not> fst (Initialize smp (VideoBufferDim cb) (VideoOutputDim cb) (VideoSampleFormat cb)
                    (VideoBufferStride cb) (VideoFrameDuration cb)))) \<longrightarrow>
    (\<exists>r smp smp'.
         StaticVideoLockCallback MaxPlanes Acquire Initialize (Some cb) Planes m = Inr r \<and>
         Acquire = Some smp \<and>
         Initialize smp (VideoBufferDim cb) (VideoOutputDim cb) (VideoSampleFormat cb)
           (VideoBufferStride cb) (VideoFrameDuration cb) = (True, smp') \<and>
         vlr_return r = Some smp' \<and>
         vlr_Planes r 0 = TS_Buffer smp' \<and>
         vlr_Callbacks r = cb\<lparr>VideoPreviousTime := CurrentTime cb\<rparr> \<and>
         VideoPreviousTime (vlr_Callbacks r) = CurrentTime cb \<and>
         vlr_Memory r = m))"
proof (intro conjI impI)
  let ?P0 = "\<lambda>i. if i < MaxPlanes then Nullptr else Planes i"
  assume d: "VideoPreviousTime cb = CurrentTime cb \<or>
    (case Acquire of
       None \<Rightarrow> True
     | Some smp \<Rightarrow>
         \<not> fst (Initialize smp (VideoBufferDim cb) (VideoOutputDim cb) (VideoSampleFormat cb)
                 (VideoBufferStride cb) (VideoFrameDuration cb)))"
  have "StaticVideoLockCallback MaxPlanes Acquire Initialize (Some cb) Planes m =
          Inr (video_lock_scratch cb ?P0 m)"
  proof (cases "VideoPreviousTime cb = CurrentTime cb")
    case True
    then show ?thesis by (rule video_lock_duplicate)
  next
    case False
    with d show ?thesis by (intro video_lock_no_sample [where Initialize = Initialize]) simp_all
  qed
  then show "\<exists>r. StaticVideoLockCallback MaxPlanes Acquire Initialize (Some cb) Planes m = Inr r \<and>
         vlr_return r = None \<and>
         vlr_Planes r 0 \<noteq> Nullptr \<and>
         BlockSize (vlr_Memory r) (vlr_Planes r 0) =
           Some (unat (VideoBufferStride cb * scast (Y (VideoBufferDim cb)))) \<and>
         vlr_Callbacks r = cb \<and>
         VideoPreviousTime (vlr_Callbacks r) = VideoPreviousTime cb"
    by (simp add: video_lock_scratch_result)
next
  assume e: "VideoPreviousTime cb = CurrentTime cb"
  show "\<forall>MaxPlanes2 Acquire2 Initialize2 Planes2.
      \<exists>r1 r2.
         StaticVideoLockCallback MaxPlanes Acquire Initialize (Some cb) Planes m = Inr r1 \<and>
         StaticVideoLockCallback MaxPlanes2 Acquire2 Initialize2 (Some (vlr_Callbacks r1))
           Planes2 (vlr_Memory r1) = Inr r2 \<and>
         vlr_return r1 = None \<and> vlr_return r2 = None \<and>
         VideoPreviousTime (vlr_Callbacks r2) = VideoPreviousTime cb"
    by (simp add: video_lock_duplicate [OF e] video_lock_scratch_result)
next
  assume n: "\<not> (VideoPreviousTime cb = CurrentTime cb \<or>
       (case Acquire of
          None \<Rightarrow> True
        | Some smp \<Rightarrow>
            \<not> fst (Initialize smp (VideoBufferDim cb) (VideoOutputDim cb) (VideoSampleFormat cb)
                    (VideoBufferStride cb) (VideoFrameDuration cb))))"
  then obtain smp where t: "VideoPreviousTime cb \<noteq> CurrentTime cb" and a: "Acquire = Some smp"
    and ok: "fst (Initialize smp (VideoBufferDim cb) (VideoOutputDim cb) (VideoSampleFormat cb)
                    (VideoBufferStride cb) (VideoFrameDuration cb))"
    by (cases Acquire) auto
  obtain smp' where i: "Initialize smp (VideoBufferDim cb) (VideoOutputDim cb)
      (VideoSampleFormat cb) (VideoBufferStride cb) (VideoFrameDuration cb) = (True, smp')"
    using ok
    by (cases "Initialize smp (VideoBufferDim cb) (VideoOutputDim cb)
      (VideoSampleFormat cb) (VideoBufferStride cb) (VideoFrameDuration cb)") auto
  show "\<exists>r smp smp'.
         StaticVideoLockCallback MaxPlanes Acquire Initialize (Some cb) Planes m = Inr r \<and>
         Acquire = Some smp \<and>
         Initialize smp (VideoBufferDim cb) (VideoOutputDim cb) (VideoSampleFormat cb)
           (VideoBufferStride cb) (VideoFrameDuration cb) = (True, smp') \<and>
         vlr_return r = Some smp' \<and>
         vlr_Planes r 0 = TS_Buffer smp' \<and>
         vlr_Callbacks r = cb\<lparr>VideoPreviousTime := CurrentTime cb\<rparr> \<and>
         VideoPreviousTime (vlr_Callbacks r) = CurrentTime cb \<and>
         vlr_Memory r = m"
    unfolding video_lock_success [where Initialize = Initialize, OF t a i]
    using a i by simp
qed

text \<open>
  On the bridge that has accepted \<open>RV32\<close> at 640 x 480: with the last-lock time stamp
  equal to the clock the call hands out a block of 2560 * 480 bytes; with the
  constructor's time stamp it hands out the pooled sample and advances the time stamp.
\<close>

theorem video_lock_discards_or_advances_witness:
  "VideoPreviousTime (negotiated_cb\<lparr>VideoPreviousTime := 0\<rparr>) =
     CurrentTime (negotiated_cb\<lparr>VideoPreviousTime := 0\<rparr>) \<and>
   StaticVideoLockCallback 5 (Some pooled_sample) example_Initialize
       (Some (negotiated_cb\<lparr>VideoPreviousTime := 0\<rparr>)) null_planes empty_memory =
     Inr \<lparr>vlr_return = None,
          vlr_Callbacks = negotiated_cb\<lparr>VideoPreviousTime := 0\<rparr>,
          vlr_Planes = null_planes(0 := Addr 1),
          vlr_Memory = \<lparr>NextAddr = 2, Blocks = [(1, 1228800, 32)]\<rparr>\<rparr> \<and>
   VideoPreviousTime negotiated_cb \<noteq> CurrentTime negotiated_cb \<and>
   StaticVideoLockCallback 5 (Some pooled_sample) example_Initialize
       (Some negotiated_cb) null_planes empty_memory =
     Inr \<lparr>vlr_return =
            Some (pooled_sample
              \<lparr>TS_Dim := \<lparr>X = 640, Y = 480\<rparr>, TS_OutputDim := \<lparr>X = 640, Y = 480\<rparr>,
               TS_SampleFormat := CharBGRA, TS_Stride := 2560, TS_Duration := 333333\<rparr>),
          vlr_Callbacks = negotiated_cb\<lparr>VideoPreviousTime := 0\<rparr>,
          vlr_Planes = null_planes(0 := Addr 4096),
          vlr_Memory = empty_memory\<rparr>"
  using video_lock_discards_or_advances
      [where cb = "negotiated_cb\<lparr>VideoPreviousTime := 0\<rparr>" and Acquire = "Some pooled_sample"
         and Initialize = example_Initialize and MaxPlanes = 5 and Planes = null_planes
         and m = empty_memory]
    video_lock_discards_or_advances
      [where cb = negotiated_cb and Acquire = "Some pooled_sample"
         and Initialize = example_Initialize and MaxPlanes = 5 and Planes = null_planes
         and m = empty_memory]
  by (simp add: StaticVideoLockCallback_def video_lock_scratch_def Malloc_def
      negotiated_cb_def FVlcMediaCallbacks_ctor_def example_Initialize_def pooled_sample_def
      null_planes_def empty_memory_def)

section \<open>Results on the video display callback\<close>









lemma video_display_null:
  "StaticVideoDisplayCallback Opaque None = Opaque"
  "StaticVideoDisplayCallback None Picture = None"
  by (simp_all add: StaticVideoDisplayCallback_def split: option.splits)

lemma video_display_other_format:
  assumes "TS_SampleFormat smp \<noteq> CharBGRA"
  shows "StaticVideoDisplayCallback (Some cb) (Some smp) =
     Some (cb\<lparr>Samples := (Samples cb)
       \<lparr>VideoSampleQueue :=
          VideoSampleQueue (Samples cb) @ [smp\<lparr>TS_Time := CurrentTime cb\<rparr>]\<rparr>\<rparr>)"
  using assms by (simp add: StaticVideoDisplayCallback_def)

lemma video_display_bgra:
  assumes "TS_SampleFormat smp = CharBGRA"
  shows "StaticVideoDisplayCallback (Some cb) (Some smp) =
     Some (cb\<lparr>Samples := (Samples cb)
       \<lparr>VideoSampleQueue :=
          VideoSampleQueue (Samples cb) @
            [smp\<lparr>TS_Time := CurrentTime cb,
                  TS_Data := mangle_loop 0 (unat (4 * X (TS_Dim smp) * Y (TS_Dim smp)))
                               (TS_Data smp)\<rparr>]\<rparr>,
        RenderCommands :=
          (if VideoTexture2D cb = Some True
           then RenderCommands cb @
                  [\<lparr>SrcPitch = 4 * X (TS_Dim smp), SrcBpp = 4, SrcData = TS_Buffer smp\<rparr>]
           else RenderCommands cb)\<rparr>)"
  using assms
  by (cases "VideoTexture2D cb")
     (simp_all add: StaticVideoDisplayCallback_def UpdateTextureRegions_def Let_def)

text \<open>
  Claim C6. A display call with a null handle changes nothing and pushes nothing,
  whether the context is null or not. A display call with a handle (and the bridge as
  context) ends with exactly one more entry at the end of the video queue: the sample
  with its time stamp set to the playback clock, with every field other than the time
  stamp and the pixel data as it was, and with the pixel data changed only for packed
  BGRA. Beside the queue, only the list of render commands can change, and it does so
  only for packed BGRA with a render target that has a resource.
\<close>

theorem video_display_pushes_once:
  fixes cb :: "'s::len FVlcMediaCallbacks"
  shows
  "StaticVideoDisplayCallback (Some cb) None = Some cb \<and>
   StaticVideoDisplayCallback (None :: 's FVlcMediaCallbacks option) None = None \<and>
   (\<exists>s2 rc.
      StaticVideoDisplayCallback (Some cb) (Some smp) =
        Some (cb\<lparr>Samples := (Samples cb)
                   \<lparr>VideoSampleQueue := VideoSampleQueue (Samples cb) @ [s2]\<rparr>,
                 RenderCommands := rc\<rparr>) \<and>
      TS_Time s2 = CurrentTime cb \<and>
      s2 = smp\<lparr>TS_Time := CurrentTime cb, TS_Data := TS_Data s2\<rparr> \<and>
      (if TS_SampleFormat smp = CharBGRA \<and> VideoTexture2D cb = Some True
       then rc = RenderCommands cb @
                  [\<lparr>SrcPitch = 4 * X (TS_Dim smp), SrcBpp = 4, SrcData = TS_Buffer smp\<rparr>]
       else rc = RenderCommands cb) \<and>
      (if TS_SampleFormat smp = CharBGRA
       then TS_Data s2 =
              mangle_loop 0 (unat (4 * X (TS_Dim smp) * Y (TS_Dim smp))) (TS_Data smp)
       else TS_Data s2 = TS_Data smp))"
proof (intro conjI)
  show "StaticVideoDisplayCallback (Some cb) None = Some cb"
    by (rule video_display_null)
  show "StaticVideoDisplayCallback (None :: 's FVlcMediaCallbacks option) None = None"
    by (rule video_display_null)
  show "\<exists>s2 rc.
      StaticVideoDisplayCallback (Some cb) (Some smp) =
        Some (cb\<lparr>Samples := (Samples cb)
                   \<lparr>VideoSampleQueue := VideoSampleQueue (Samples cb) @ [s2]\<rparr>,
                 RenderCommands := rc\<rparr>) \<and>
      TS_Time s2 = CurrentTime cb \<and>
      s2 = smp\<lparr>TS_Time := CurrentTime cb, TS_Data := TS_Data s2\<rparr> \<and>
      (if TS_SampleFormat smp = CharBGRA \<and> VideoTexture2D cb = Some True
       then rc = RenderCommands cb @
                  [\<lparr>SrcPitch = 4 * X (TS_Dim smp), SrcBpp = 4, SrcData = TS_Buffer smp\<rparr>]
       else rc = RenderCommands cb) \<and>
      (if TS_SampleFormat smp = CharBGRA
       then TS_Data s2 =
              mangle_loop 0 (unat (4 * X (TS_Dim smp) * Y (TS_Dim smp))) (TS_Data smp)
       else TS_Data s2 = TS_Data smp)"
  proof (cases "TS_SampleFormat smp = CharBGRA")
    case True
    show ?thesis
      unfolding video_display_bgra [OF True]
      by (rule exI [of _ "smp\<lparr>TS_Time := CurrentTime cb,
                  TS_Data := mangle_loop 0 (unat (4 * X (TS_Dim smp) * Y (TS_Dim smp)))
                               (TS_Data smp)\<rparr>"],
          rule exI [of _ "if VideoTexture2D cb = Some True
           then RenderCommands cb @
                  [\<lparr>SrcPitch = 4 * X (TS_Dim smp), SrcBpp = 4, SrcData = TS_Buffer smp\<rparr>]
           else RenderCommands cb"])
         (simp add: True)
  next
    case False
    show ?thesis
      unfolding video_display_other_format [OF False]
      by (rule exI [of _ "smp\<lparr>TS_Time := CurrentTime cb\<rparr>"],
          rule exI [of _ "RenderCommands cb"])
         (simp add: False)
  qed
qed

text \<open>
  A null handle, and a YUY2 sample displayed at clock 170000 on a bridge whose queues
  are empty.
\<close>

theorem video_display_pushes_once_witness:
  "StaticVideoDisplayCallback (Some (negotiated_cb\<lparr>CurrentTime := 170000\<rparr>)) None =
     Some (negotiated_cb\<lparr>CurrentTime := 170000\<rparr>) \<and>
   StaticVideoDisplayCallback (Some (negotiated_cb\<lparr>CurrentTime := 170000\<rparr>))
       (Some (pooled_sample\<lparr>TS_SampleFormat := CharYUY2\<rparr>)) =
     Some (negotiated_cb
       \<lparr>CurrentTime := 170000,
        Samples := \<lparr>AudioSampleQueue = [],
                    VideoSampleQueue =
                      [pooled_sample\<lparr>TS_SampleFormat := CharYUY2, TS_Time := 170000\<rparr>]\<rparr>\<rparr>)"
  using video_display_pushes_once
    [of "negotiated_cb\<lparr>CurrentTime := 170000\<rparr>" "pooled_sample\<lparr>TS_SampleFormat := CharYUY2\<rparr>"]
  by (simp add: StaticVideoDisplayCallback_def negotiated_cb_def FVlcMediaCallbacks_ctor_def
      pooled_sample_def)






section \<open>Results on the audio delivery callback\<close>

text \<open>
  For a non-zero sample rate the callback builds one sample from its arguments and the
  negotiated format and pushes it exactly when \<open>Initialize\<close> accepts it. The duration
  is the quotient of the claim as long as \<open>Count * 1000000\<close> fits 32 bits.
\<close>

lemma audio_play_result:
  fixes cb :: "'s::len FVlcMediaCallbacks"
  assumes "AudioSampleRate cb \<noteq> 0"
  shows "StaticAudioPlayCallback Delay Initialize (Some cb) SamplesPtr Count Timestamp =
    (let AudioSample =
       \<lparr>AS_Buffer = SamplesPtr,
        AS_Size = ucast Count * AudioSampleSize cb * ucast (AudioChannels cb),
        AS_Frames = Count,
        AS_Channels = AudioChannels cb,
        AS_SampleFormat = AudioSampleFormat cb,
        AS_SampleRate = AudioSampleRate cb,
        AS_Time = CurrentTime cb + FromMicroseconds (sint (Delay Timestamp)),
        AS_Duration = FromMicroseconds (uint ((Count * 1000000) div AudioSampleRate cb))\<rparr>
     in Inr (Some (if Initialize AudioSample
                   then cb\<lparr>Samples := (Samples cb)
                          \<lparr>AudioSampleQueue := AudioSampleQueue (Samples cb) @ [AudioSample]\<rparr>\<rparr>
                   else cb)))"
  using assms by (simp add: StaticAudioPlayCallback_def Let_def)

lemma audio_play_duration_exact:
  fixes Count Rate :: uint32
  assumes "unat Count * 1000000 < 2 ^ 32"
  shows "uint ((Count * 1000000) div Rate) = int (unat Count * 1000000 div unat Rate)"
proof -
  have "unat (Count * 1000000) = unat Count * 1000000 mod 4294967296"
    by (simp add: unat_word_ariths)
  then have m: "unat (Count * 1000000) = unat Count * 1000000"
    using assms by simp
  have "unat ((Count * 1000000) div Rate) = unat (Count * 1000000) div unat Rate"
    by (simp add: unat_div)
  then show ?thesis
    unfolding m by (simp add: uint_nat)
qed

text \<open>
  Claim C8 asks for a duration of \<open>Count * 1000000 / rate\<close> microseconds. The callback
  computes the product in \<open>uint32\<close>. For a block of 4295 samples at 44100 Hz (16-bit
  stereo) the product wraps to 32704, and the sample is given a duration of 0 where
  the claim's quotient is 97392 microseconds. Size (17180 bytes), time stamp and the
  push exactly on a successful \<open>Initialize\<close> are as the claim says.
\<close>

theorem audio_play_duration_wraps:
  "0 < AudioSampleRate audio_cb \<and>
   StaticAudioPlayCallback Delay Initialize (Some audio_cb) SamplesPtr 4295 Timestamp =
     (let AudioSample =
        \<lparr>AS_Buffer = SamplesPtr, AS_Size = 17180, AS_Frames = 4295, AS_Channels = 2,
         AS_SampleFormat = Int16, AS_SampleRate = 44100,
         AS_Time = FromMicroseconds (sint (Delay Timestamp)),
         AS_Duration = FromMicroseconds 0\<rparr>
      in Inr (Some (if Initialize AudioSample
                    then audio_cb\<lparr>Samples :=
                           \<lparr>AudioSampleQueue = [AudioSample], VideoSampleQueue = []\<rparr>\<rparr>
                    else audio_cb))) \<and>
   (4295 * 1000000 :: uint32) = 32704 \<and>
   (4295 * 1000000 :: int) div 44100 = 97392"
proof -
  have r: "AudioSampleRate audio_cb \<noteq> 0" by (simp add: audio_cb_def)
  have w: "(4295 * 1000000 :: uint32) = 32704" by simp
  have d: "(32704 :: uint32) div 44100 = 0"
    by (simp add: word_div_def)
  show ?thesis
    unfolding audio_play_result [OF r]
    by (simp add: audio_cb_def FVlcMediaCallbacks_ctor_def w d Let_def)
qed

section \<open>Results on a null context\<close>

text \<open>
  Claim C7, as amended. Every callback except the video lock callback returns without
  a fault when its context is null. Audio delivery and display return at once and
  change nothing; the audio negotiation returns -1 and the video negotiation returns
  0, both leaving their in/out arguments as they were; unlock does what it does with
  a context, since it never reads through it; the callbacks that only write a log
  line, and the video cleanup, do nothing. The video lock callback asserts that its
  context is not null, so with a null context it stops with a failed assertion.
\<close>

theorem null_context_callbacks:
  fixes cb :: "'s::len FVlcMediaCallbacks"
  shows
  "StaticAudioPlayCallback Delay AInitialize (None :: 's FVlcMediaCallbacks option)
      SamplesPtr Count Timestamp = Inr None \<and>
   StaticAudioSetupCallback (None :: 's FVlcMediaCallbacks option) Format Rate Channels =
     \<lparr>asr_return = - 1, asr_Callbacks = None, asr_Format = Format, asr_Rate = Rate,
      asr_Channels = Channels\<rparr> \<and>
   StaticVideoSetupCallback vlc (None :: 's FVlcMediaCallbacks option) Chroma Width Height
      Pitches Lines =
     \<lparr>vsr_return = 0, vsr_Callbacks = None, vsr_Chroma = Chroma, vsr_Width = Width,
      vsr_Height = Height, vsr_Pitches = Pitches, vsr_Lines = Lines\<rparr> \<and>
   StaticVideoDisplayCallback (None :: 's FVlcMediaCallbacks option) Picture = None \<and>
   StaticVideoUnlockCallback (None :: 's FVlcMediaCallbacks option) Picture Planes m =
     StaticVideoUnlockCallback (Some cb) Picture Planes m \<and>
   StaticAudioCleanupCallback (None :: 's FVlcMediaCallbacks option) = None \<and>
   StaticAudioDrainCallback (None :: 's FVlcMediaCallbacks option) = None \<and>
   StaticAudioFlushCallback (None :: 's FVlcMediaCallbacks option) Timestamp = None \<and>
   StaticAudioPauseCallback (None :: 's FVlcMediaCallbacks option) Timestamp = None \<and>
   StaticAudioResumeCallback (None :: 's FVlcMediaCallbacks option) Timestamp = None \<and>
   StaticVideoCleanupCallback (None :: 's FVlcMediaCallbacks option) = None \<and>
   StaticVideoLockCallback MaxPlanes Acquire Initialize (None :: 's FVlcMediaCallbacks option)
      PlaneTable m = Inl AssertionFailed"
  by (simp add: StaticAudioPlayCallback_def StaticAudioSetupCallback_def video_setup_null
      video_setup_reject_def StaticVideoDisplayCallback_def StaticVideoUnlockCallback_def
      StaticAudioCleanupCallback_def StaticAudioDrainCallback_def StaticAudioFlushCallback_def
      StaticAudioPauseCallback_def StaticAudioResumeCallback_def StaticVideoCleanupCallback_def
      StaticVideoLockCallback_def)

text \<open>
  Claim C7 as stated fails: the video lock callback with a null context does not
  return; its assertion fails.
\<close>

theorem video_lock_null_context_asserts:
  "StaticVideoLockCallback 5 (Some pooled_sample) example_Initialize None null_planes
     empty_memory = Inl AssertionFailed"
  by (simp add: StaticVideoLockCallback_def)

end
